theory Spec2Isabelle
  imports Complex_Main
begin

section \<open>JavaScript numbers\<close>

text \<open>
  The engine of \<^verbatim>\<open>server.js\<close> computes on JavaScript numbers, which are IEEE-754
  doubles. A number is modelled as a finite value, one of the two infinities, or NaN.
  A finite value is a real number. The result of an arithmetic operation on finite
  operands is the exact real result when its magnitude is below the overflow bound of
  doubles, and the infinity of its sign otherwise. So overflow, division by zero, and
  the way NaN and the infinities pass through the operators, the comparisons,
  \<^verbatim>\<open>Math.min\<close>, \<^verbatim>\<open>Math.max\<close> and \<^verbatim>\<open>isFinite\<close> are modelled; the rounding of a result
  to the nearest double, underflow and the sign of zero are not.
\<close>

datatype jsnum = Fin real | PInf | NInf | NaN

text \<open>
  A real result of magnitude \<open>2\<^sup>1\<^sup>0\<^sup>2\<^sup>4 - 2\<^sup>9\<^sup>7\<^sup>0\<close> or more rounds to an infinity; every
  finite double is below this bound.
\<close>

definition overflow_bound :: real where
  "overflow_bound = 2 ^ 1024 - 2 ^ 970"

definition fl :: "real \<Rightarrow> jsnum" where
  "fl x = (if overflow_bound \<le> x then PInf else if x \<le> - overflow_bound then NInf else Fin x)"

fun isFinite :: "jsnum \<Rightarrow> bool" where
  "isFinite (Fin x) = True"
| "isFinite PInf = False"
| "isFinite NInf = False"
| "isFinite NaN = False"

text \<open>
  The operators \<^verbatim>\<open><\<close>, \<^verbatim>\<open><=\<close>, \<^verbatim>\<open>>\<close> and \<^verbatim>\<open>>=\<close>; a comparison with NaN is false.
\<close>

fun jlt :: "jsnum \<Rightarrow> jsnum \<Rightarrow> bool" where
  "jlt NaN y = False"
| "jlt x NaN = False"
| "jlt (Fin a) (Fin b) = (a < b)"
| "jlt x NInf = False"
| "jlt NInf y = True"
| "jlt PInf y = False"
| "jlt (Fin a) PInf = True"

fun jle :: "jsnum \<Rightarrow> jsnum \<Rightarrow> bool" where
  "jle NaN y = False"
| "jle x NaN = False"
| "jle (Fin a) (Fin b) = (a \<le> b)"
| "jle NInf y = True"
| "jle x NInf = False"
| "jle x PInf = True"
| "jle PInf (Fin b) = False"

definition jgt :: "jsnum \<Rightarrow> jsnum \<Rightarrow> bool" where
  "jgt x y = jlt y x"

definition jge :: "jsnum \<Rightarrow> jsnum \<Rightarrow> bool" where
  "jge x y = jle y x"

fun jneg :: "jsnum \<Rightarrow> jsnum" where
  "jneg (Fin a) = Fin (- a)"
| "jneg PInf = NInf"
| "jneg NInf = PInf"
| "jneg NaN = NaN"

fun jadd :: "jsnum \<Rightarrow> jsnum \<Rightarrow> jsnum" where
  "jadd NaN y = NaN"
| "jadd x NaN = NaN"
| "jadd (Fin a) (Fin b) = fl (a + b)"
| "jadd PInf NInf = NaN"
| "jadd NInf PInf = NaN"
| "jadd PInf y = PInf"
| "jadd NInf y = NInf"
| "jadd (Fin a) y = y"

definition jsub :: "jsnum \<Rightarrow> jsnum \<Rightarrow> jsnum" where
  "jsub x y = jadd x (jneg y)"

text \<open>The sign of a non-NaN number: \<open>1\<close>, \<open>0\<close> or \<open>-1\<close>.\<close>

fun jsign :: "jsnum \<Rightarrow> real" where
  "jsign (Fin a) = sgn a"
| "jsign PInf = 1"
| "jsign NInf = - 1"
| "jsign NaN = 0"

definition inf_of_sign :: "real \<Rightarrow> jsnum" where
  "inf_of_sign s = (if s = 0 then NaN else if 0 < s then PInf else NInf)"

fun jmul :: "jsnum \<Rightarrow> jsnum \<Rightarrow> jsnum" where
  "jmul NaN y = NaN"
| "jmul x NaN = NaN"
| "jmul (Fin a) (Fin b) = fl (a * b)"
| "jmul x y = inf_of_sign (jsign x * jsign y)"

text \<open>
  Division of finite numbers by zero gives an infinity with the sign of the dividend,
  and \<^verbatim>\<open>0 / 0\<close> is NaN (the divisor is taken as \<^verbatim>\<open>+0\<close>).
\<close>

fun jdiv :: "jsnum \<Rightarrow> jsnum \<Rightarrow> jsnum" where
  "jdiv NaN y = NaN"
| "jdiv x NaN = NaN"
| "jdiv (Fin a) (Fin b) = (if b = 0 then inf_of_sign (sgn a) else fl (a / b))"
| "jdiv (Fin a) y = Fin 0"
| "jdiv x (Fin b) = inf_of_sign (jsign x * (if b < 0 then - 1 else 1))"
| "jdiv x y = NaN"

text \<open>\<^verbatim>\<open>Math.min\<close> and \<^verbatim>\<open>Math.max\<close> of two arguments: NaN if either is NaN.\<close>

definition Math_min :: "jsnum \<Rightarrow> jsnum \<Rightarrow> jsnum" where
  "Math_min x y = (if x = NaN \<or> y = NaN then NaN else if jlt y x then y else x)"

definition Math_max :: "jsnum \<Rightarrow> jsnum \<Rightarrow> jsnum" where
  "Math_max x y = (if x = NaN \<or> y = NaN then NaN else if jlt x y then y else x)"

text \<open>\<^verbatim>\<open>Math.round\<close>: the nearest integer, a tie going up.\<close>

fun Math_round :: "jsnum \<Rightarrow> jsnum" where
  "Math_round (Fin a) = Fin (of_int \<lfloor>a + 1 / 2\<rfloor>)"
| "Math_round x = x"

text \<open>
  \<^verbatim>\<open>Number(x.toFixed(3))\<close>: the magnitude is rounded to three decimals, a tie going
  to the larger magnitude; numbers of magnitude \<open>10\<^sup>2\<^sup>1\<close> and more, the infinities and NaN
  are printed as they are and read back unchanged.
\<close>

fun toFixed3 :: "jsnum \<Rightarrow> jsnum" where
  "toFixed3 (Fin a) =
     (if 10 ^ 21 \<le> \<bar>a\<bar> then Fin a
      else Fin (sgn a * of_int \<lfloor>\<bar>a\<bar> * 1000 + 1 / 2\<rfloor> / 1000))"
| "toFixed3 x = x"

section \<open>Data model\<close>

text \<open>
  The crop data is an object parsed from JSON and nothing checks its fields. A field is
  missing (it reads as \<^verbatim>\<open>undefined\<close>), or \<^verbatim>\<open>null\<close>, or holds another value. The
  engine uses a field only as an operand of \<^verbatim>\<open><\<close>, \<^verbatim>\<open>>\<close>, \<^verbatim>\<open><=\<close>, \<^verbatim>\<open>>=\<close> and
  \<^verbatim>\<open>-\<close> against a number, and of \<^verbatim>\<open>??\<close>; so a value other than \<^verbatim>\<open>undefined\<close> and
  \<^verbatim>\<open>null\<close> is represented by the number it converts to.
\<close>

datatype jsvalue = Undefined | Null | Number jsnum

fun ToNumber :: "jsvalue \<Rightarrow> jsnum" where
  "ToNumber Undefined = NaN"
| "ToNumber Null = Fin 0"
| "ToNumber (Number x) = x"

text \<open>
  A threshold range \<^verbatim>\<open>{min, max, idealMin, idealMax}\<close> of the crop data. The fields
  \<^verbatim>\<open>min\<close> and \<^verbatim>\<open>max\<close> carry a suffix here.
\<close>

record threshold_range =
  min_r :: jsvalue
  max_r :: jsvalue
  idealMin :: jsvalue
  idealMax :: jsvalue

section \<open>Fit evaluator\<close>

text \<open>
  \<^verbatim>\<open>rangeFit(val, r)\<close> of the \<^verbatim>\<open>/api/simulate\<close> handler. An absent range (\<^verbatim>\<open>!r\<close>) is
  \<open>None\<close>. Every comparison and every arithmetic operation is the JavaScript one; the
  quotient \<^verbatim>\<open>dist / span\<close> does not fail on a zero divisor.
\<close>

definition rangeFit :: "jsnum \<Rightarrow> threshold_range option \<Rightarrow> jsnum" where
  "rangeFit val ro =
     (case ro of
        None \<Rightarrow> Fin 0.5
      | Some r \<Rightarrow>
          if \<not> isFinite val then Fin 0.5
          else if jlt val (ToNumber (min_r r)) \<or> jgt val (ToNumber (max_r r)) then Fin 0
          else if jge val (ToNumber (idealMin r)) \<and> jle val (ToNumber (idealMax r)) then Fin 1
          else
            let dist = (if jlt val (ToNumber (idealMin r))
                        then jsub (ToNumber (idealMin r)) val
                        else jsub val (ToNumber (idealMax r)));
                span = (if jlt val (ToNumber (idealMin r))
                        then jsub (ToNumber (idealMin r)) (ToNumber (min_r r))
                        else jsub (ToNumber (max_r r)) (ToNumber (idealMax r)));
                penalty = Math_min (Fin 1) (jdiv dist span)
            in jsub (Fin 1) (jmul (Fin 0.6) penalty))"

section \<open>Configuration\<close>

text \<open>The table \<^verbatim>\<open>SIMULATION_CONSTANTS\<close>.\<close>

definition WEIGHTS_temperature :: real where "WEIGHTS_temperature = 0.35"
definition WEIGHTS_rainfall :: real where "WEIGHTS_rainfall = 0.3"
definition WEIGHTS_solar :: real where "WEIGHTS_solar = 0.15"
definition WEIGHTS_soil :: real where "WEIGHTS_soil = 0.2"

definition GROWTH_baseRate :: real where "GROWTH_baseRate = 0.012"
definition GROWTH_envFactor :: real where "GROWTH_envFactor = 0.018"
definition GROWTH_stressThreshold :: real where "GROWTH_stressThreshold = 0.6"
definition GROWTH_decayFactor :: real where "GROWTH_decayFactor = 0.04"

definition SOIL_socContributionFactor :: real where "SOIL_socContributionFactor = 150"
definition SOIL_maxSocBonus :: real where "SOIL_maxSocBonus = 0.2"
definition SOIL_texturePenalty :: real where "SOIL_texturePenalty = 0.2"

text \<open>
  The constants \<^verbatim>\<open>days\<close> and \<^verbatim>\<open>stageMarkers\<close> of the handler. The marker
  \<^verbatim>\<open>grainfill\<close> is declared and never read.
\<close>

definition days :: nat where "days = 120"

definition stage_germination :: nat where "stage_germination = 7"
definition stage_vegetative :: nat where "stage_vegetative = 45"
definition stage_flowering :: nat where "stage_flowering = 80"
definition stage_grainfill :: nat where "stage_grainfill = 110"

section \<open>Inputs of the engine\<close>

record texture_limits =
  clayMax :: jsvalue
  sandMax :: jsvalue

text \<open>
  The object parsed from the model's answer: each of the five keys may be missing.
\<close>

record gemini_json =
  json_temperatureC :: "threshold_range option"
  json_annualRainfallMm :: "threshold_range option"
  json_solarMJm2day :: "threshold_range option"
  json_soilPh :: "threshold_range option"
  json_soilTexture :: "texture_limits option"

text \<open>
  The crop data the handler works with: what \<^verbatim>\<open>getCropDataFromGemini\<close> returns when
  it does not return \<^verbatim>\<open>null\<close>. The three keys it checks are present; the other two
  may still be missing.
\<close>

record crop_reqs =
  temperatureC :: threshold_range
  annualRainfallMm :: "threshold_range option"
  solarMJm2day :: "threshold_range option"
  soilPh :: threshold_range
  soilTexture :: texture_limits

text \<open>
  The fields of the climate object that the engine reads (\<^verbatim>\<open>solarMJm2day\<close> is
  \<open>solarMJ\<close> here, the name being taken by the crop data), and the soil object, whose
  fields may be \<^verbatim>\<open>null\<close>.
\<close>

record climate =
  tempC :: jsnum
  annualRainMm :: jsnum
  solarMJ :: jsnum

record soil =
  ph :: "jsnum option"
  soc :: "jsnum option"
  clay :: "jsnum option"
  silt :: "jsnum option"
  sand :: "jsnum option"

text \<open>
  \<^verbatim>\<open>getCropDataFromGemini\<close> from the parsed answer on: an answer without
  \<^verbatim>\<open>temperatureC\<close>, \<^verbatim>\<open>soilPh\<close> or \<^verbatim>\<open>soilTexture\<close> raises inside the function, which
  catches it and returns \<^verbatim>\<open>null\<close>. (The cache holds only answers that passed this test.)
\<close>

definition getCropDataFromGemini :: "gemini_json \<Rightarrow> crop_reqs option" where
  "getCropDataFromGemini parsed =
     (case (json_temperatureC parsed, json_soilPh parsed, json_soilTexture parsed) of
        (Some t, Some p, Some x) \<Rightarrow>
          Some \<lparr>temperatureC = t, annualRainfallMm = json_annualRainfallMm parsed,
                solarMJm2day = json_solarMJm2day parsed, soilPh = p, soilTexture = x\<rparr>
      | _ \<Rightarrow> None)"

section \<open>Fit scores, soil quality and environmental score\<close>

text \<open>\<^verbatim>\<open>x ?? NaN\<close>.\<close>

definition or_NaN :: "jsnum option \<Rightarrow> jsnum" where
  "or_NaN x = (case x of None \<Rightarrow> NaN | Some v \<Rightarrow> v)"

definition tFit :: "crop_reqs \<Rightarrow> climate \<Rightarrow> jsnum" where
  "tFit reqs climR = rangeFit (tempC climR) (Some (temperatureC reqs))"

definition rFit :: "crop_reqs \<Rightarrow> climate \<Rightarrow> jsnum" where
  "rFit reqs climR = rangeFit (annualRainMm climR) (annualRainfallMm reqs)"

definition sFit :: "crop_reqs \<Rightarrow> climate \<Rightarrow> jsnum" where
  "sFit reqs climR = rangeFit (solarMJ climR) (solarMJm2day reqs)"

definition texturePenalty :: "crop_reqs \<Rightarrow> jsnum \<Rightarrow> jsnum \<Rightarrow> jsnum" where
  "texturePenalty reqs clay_v sand_v =
     (let p0 = Fin 0;
          p1 = (if isFinite clay_v \<and> jgt clay_v (ToNumber (clayMax (soilTexture reqs)))
                then jadd p0 (Fin SOIL_texturePenalty) else p0);
          p2 = (if isFinite sand_v \<and> jgt sand_v (ToNumber (sandMax (soilTexture reqs)))
                then jadd p1 (Fin SOIL_texturePenalty) else p1)
      in p2)"

definition phFit :: "crop_reqs \<Rightarrow> jsnum \<Rightarrow> jsnum" where
  "phFit reqs ph_v = rangeFit ph_v (Some (soilPh reqs))"

definition socBonus :: "jsnum \<Rightarrow> jsnum" where
  "socBonus soc_v =
     (if isFinite soc_v
      then Math_min (Fin SOIL_maxSocBonus) (jdiv soc_v (Fin SOIL_socContributionFactor))
      else Fin 0)"

definition soilQuality :: "crop_reqs \<Rightarrow> jsnum \<Rightarrow> jsnum \<Rightarrow> jsnum \<Rightarrow> jsnum \<Rightarrow> jsnum" where
  "soilQuality reqs ph_v clay_v sand_v soc_v =
     Math_max (Fin 0)
       (Math_min (Fin 1)
          (jadd (jsub (phFit reqs ph_v) (texturePenalty reqs clay_v sand_v)) (socBonus soc_v)))"

definition soilFit :: "crop_reqs \<Rightarrow> soil \<Rightarrow> jsnum" where
  "soilFit reqs soilR =
     soilQuality reqs (or_NaN (ph soilR)) (or_NaN (clay soilR)) (or_NaN (sand soilR))
       (or_NaN (soc soilR))"

definition envScore :: "crop_reqs \<Rightarrow> climate \<Rightarrow> soil \<Rightarrow> jsnum" where
  "envScore reqs climR soilR =
     jadd (jadd (jadd (jmul (tFit reqs climR) (Fin WEIGHTS_temperature))
                      (jmul (rFit reqs climR) (Fin WEIGHTS_rainfall)))
                (jmul (sFit reqs climR) (Fin WEIGHTS_solar)))
          (jmul (soilFit reqs soilR) (Fin WEIGHTS_soil))"

definition stress :: "jsnum \<Rightarrow> jsnum" where
  "stress env = jsub (Fin 1) env"

section \<open>Growth timeline\<close>

record frame =
  day :: nat
  biomass :: jsnum
  stage :: string
  alive :: bool

definition growthRate :: "jsnum \<Rightarrow> jsnum" where
  "growthRate env = jadd (Fin GROWTH_baseRate) (jmul (Fin GROWTH_envFactor) env)"

definition decay :: "jsnum \<Rightarrow> jsnum" where
  "decay st =
     (if jgt st (Fin GROWTH_stressThreshold)
      then jmul (jsub st (Fin GROWTH_stressThreshold)) (Fin GROWTH_decayFactor)
      else Fin 0)"

text \<open>\<^verbatim>\<open>reqs.annualRainfallMm?.min ?? 400\<close>.\<close>

definition minRain :: "crop_reqs \<Rightarrow> jsnum" where
  "minRain reqs =
     (case annualRainfallMm reqs of
        None \<Rightarrow> Fin 400
      | Some r \<Rightarrow> (case min_r r of Undefined \<Rightarrow> Fin 400 | Null \<Rightarrow> Fin 400 | Number x \<Rightarrow> x))"

definition shock :: "crop_reqs \<Rightarrow> climate \<Rightarrow> jsnum" where
  "shock reqs climR =
     (if jlt (annualRainMm climR) (minRain reqs) then Fin 0.003 else Fin 0)"

definition stage_of :: "nat \<Rightarrow> string" where
  "stage_of d =
     (if d < stage_germination then ''pre-germination''
      else if d < stage_vegetative then ''germination''
      else if d < stage_flowering then ''flowering''
      else ''maturity'')"

text \<open>
  The two assignments to \<^verbatim>\<open>biomass\<close> in the body of the loop: growth and decay,
  clamped to \<open>[0, 1]\<close>, then the rainfall shock, clamped at \<open>0\<close>.
\<close>

definition biomass_step :: "crop_reqs \<Rightarrow> climate \<Rightarrow> jsnum \<Rightarrow> jsnum \<Rightarrow> jsnum" where
  "biomass_step reqs climR env biomass0 =
     (let biomass1 =
            Math_max (Fin 0)
              (Math_min (Fin 1) (jsub (jadd biomass0 (growthRate env)) (decay (stress env))))
      in Math_max (Fin 0) (jsub biomass1 (shock reqs climR)))"

text \<open>
  One pass through the body of the loop \<^verbatim>\<open>for (let d = 1; d <= days; d++)\<close>. The state
  is the triple of the variables \<^verbatim>\<open>biomass\<close>, \<^verbatim>\<open>alive\<close> and \<^verbatim>\<open>timeline\<close>.
\<close>

definition loop_body ::
  "crop_reqs \<Rightarrow> climate \<Rightarrow> jsnum \<Rightarrow> nat \<Rightarrow> jsnum \<times> bool \<times> frame list
     \<Rightarrow> jsnum \<times> bool \<times> frame list" where
  "loop_body reqs climR env d s =
     (case s of (biomass0, alive0, timeline0) \<Rightarrow>
        let biomass1 = biomass_step reqs climR env biomass0;
            alive1 = (if biomass1 = Fin 0 \<and> d > 20 \<and> jgt (stress env) (Fin 0.7)
                      then False else alive0)
        in (biomass1, alive1,
            timeline0 @
              [\<lparr>day = d, biomass = toFixed3 biomass1, stage = stage_of d, alive = alive1\<rparr>]))"

definition run_loop :: "crop_reqs \<Rightarrow> climate \<Rightarrow> jsnum \<Rightarrow> jsnum \<times> bool \<times> frame list" where
  "run_loop reqs climR env = fold (loop_body reqs climR env) [1..<Suc days] (Fin 0, True, [])"

section \<open>Outcome and response\<close>

record fit_scores =
  temperature :: jsnum
  rainfall :: jsnum
  solar :: jsnum
  soil_fit :: jsnum

record simulation_result =
  score :: jsnum
  status :: string
  timeline :: "frame list"
  fits :: fit_scores
  limits :: "string list"

definition finalScore :: "jsnum \<Rightarrow> jsnum" where
  "finalScore env = Math_round (jmul env (Fin 100))"

text \<open>
  When \<^verbatim>\<open>alive\<close> is false the status reads \<^verbatim>\<open>timeline[days - 1].biomass\<close>; on an
  array too short for that index the read gives \<^verbatim>\<open>undefined\<close> and the property access
  raises, which is \<open>None\<close> here.
\<close>

definition status_of :: "bool \<Rightarrow> frame list \<Rightarrow> jsnum \<Rightarrow> string option" where
  "status_of alive_v frames fs =
     (if \<not> alive_v \<and> length frames \<le> days - 1 then None
      else Some (if \<not> alive_v \<and> jlt (biomass (frames ! (days - 1))) (Fin 0.2) then ''fail''
                 else if jlt fs (Fin 60) then ''struggle''
                 else if jlt fs (Fin 80) then ''good''
                 else ''great''))"

definition limits_of :: "crop_reqs \<Rightarrow> climate \<Rightarrow> soil \<Rightarrow> string list" where
  "limits_of reqs climR soilR =
     (if jlt (tFit reqs climR) (Fin 0.4) then [''Temperature outside comfortable range''] else []) @
     (if jlt (rFit reqs climR) (Fin 0.4) then [''Insufficient or excessive rainfall''] else []) @
     (if jlt (sFit reqs climR) (Fin 0.4) then [''Suboptimal solar radiation''] else []) @
     (if jlt (phFit reqs (or_NaN (ph soilR))) (Fin 0.5) then [''Soil pH unsuitable''] else []) @
     (if isFinite (or_NaN (clay soilR)) \<and>
         jgt (or_NaN (clay soilR)) (ToNumber (clayMax (soilTexture reqs)))
      then [''Soil too clayey (poor drainage)''] else []) @
     (if isFinite (or_NaN (sand soilR)) \<and>
         jgt (or_NaN (sand soilR)) (ToNumber (sandMax (soilTexture reqs)))
      then [''Soil too sandy (low water retention)''] else [])"

text \<open>
  The engine: the handler from the fit scores to the response, for crop data that is
  present. A raise inside the handler is \<open>None\<close>. The response also echoes the climate
  and soil objects and their sources, which are left out of \<open>simulation_result\<close>.
\<close>

definition evaluate :: "crop_reqs \<Rightarrow> climate \<Rightarrow> soil \<Rightarrow> simulation_result option" where
  "evaluate reqs climR soilR =
     (let env = envScore reqs climR soilR;
          (biomass_end, alive_end, frames) = run_loop reqs climR env;
          fs = finalScore env
      in case status_of alive_end frames fs of
           None \<Rightarrow> None
         | Some st \<Rightarrow>
             Some \<lparr>score = fs, status = st, timeline = frames,
                   fits = \<lparr>temperature = tFit reqs climR, rainfall = rFit reqs climR,
                           solar = sFit reqs climR, soil_fit = soilFit reqs soilR\<rparr>,
                   limits = limits_of reqs climR soilR\<rparr>)"

text \<open>
  The handler of \<^verbatim>\<open>/api/simulate\<close> once the request itself is accepted and the climate
  and soil objects are there: without crop data it answers 404 and computes nothing.
\<close>

datatype response = Status404 | Status500 | Ok simulation_result

definition simulate :: "gemini_json \<Rightarrow> climate \<Rightarrow> soil \<Rightarrow> response" where
  "simulate parsed climR soilR =
     (case getCropDataFromGemini parsed of
        None \<Rightarrow> Status404
      | Some reqs \<Rightarrow>
          (case evaluate reqs climR soilR of
             None \<Rightarrow> Status500
           | Some res \<Rightarrow> Ok res))"


section \<open>Notions used to state the properties\<close>

text \<open>
  The state of the loop after \<open>n\<close> passes, read off the loop body: the biomass, the
  \<^verbatim>\<open>alive\<close> flag and the frame pushed on day \<open>n\<close>. Lemma \<open>run_prefix\<close> below proves
  that the loop computes exactly these.
\<close>

primrec biomass_at :: "crop_reqs \<Rightarrow> climate \<Rightarrow> jsnum \<Rightarrow> nat \<Rightarrow> jsnum" where
  "biomass_at reqs climR env 0 = Fin 0"
| "biomass_at reqs climR env (Suc n) = biomass_step reqs climR env (biomass_at reqs climR env n)"

primrec alive_at :: "crop_reqs \<Rightarrow> climate \<Rightarrow> jsnum \<Rightarrow> nat \<Rightarrow> bool" where
  "alive_at reqs climR env 0 = True"
| "alive_at reqs climR env (Suc n) =
     (if biomass_at reqs climR env (Suc n) = Fin 0 \<and> Suc n > 20 \<and> jgt (stress env) (Fin 0.7)
      then False else alive_at reqs climR env n)"

definition frame_at :: "crop_reqs \<Rightarrow> climate \<Rightarrow> jsnum \<Rightarrow> nat \<Rightarrow> frame" where
  "frame_at reqs climR env d =
     \<lparr>day = d, biomass = toFixed3 (biomass_at reqs climR env d), stage = stage_of d,
      alive = alive_at reqs climR env d\<rparr>"

text \<open>The status as the handler computes it from the final state of the loop.\<close>

definition status_at :: "crop_reqs \<Rightarrow> climate \<Rightarrow> jsnum \<Rightarrow> string" where
  "status_at reqs climR env =
     (if \<not> alive_at reqs climR env days \<and>
         jlt (toFixed3 (biomass_at reqs climR env days)) (Fin 0.2) then ''fail''
      else if jlt (finalScore env) (Fin 60) then ''struggle''
      else if jlt (finalScore env) (Fin 80) then ''good''
      else ''great'')"

text \<open>
  A range with four finite bounds, written in the order \<open>min\<close>, \<open>idealMin\<close>, \<open>idealMax\<close>,
  \<open>max\<close>; and the statement that a range has such bounds (a field that is \<^verbatim>\<open>null\<close>
  counts as 0, as it does in the code).
\<close>

definition num_range :: "real \<Rightarrow> real \<Rightarrow> real \<Rightarrow> real \<Rightarrow> threshold_range" where
  "num_range a b c d =
     \<lparr>min_r = Number (Fin a), max_r = Number (Fin d), idealMin = Number (Fin b),
      idealMax = Number (Fin c)\<rparr>"

definition has_bounds :: "threshold_range \<Rightarrow> real \<Rightarrow> real \<Rightarrow> real \<Rightarrow> real \<Rightarrow> bool" where
  "has_bounds r a b c d \<longleftrightarrow>
     ToNumber (min_r r) = Fin a \<and> ToNumber (idealMin r) = Fin b \<and>
     ToNumber (idealMax r) = Fin c \<and> ToNumber (max_r r) = Fin d"



text \<open>
  A range whose two widths \<^verbatim>\<open>idealMin - min\<close> and \<^verbatim>\<open>max - idealMax\<close>, as the code
  computes them, are finite numbers: the four bounds are there, they are finite, and
  neither difference overflows. Crop data is well formed when this holds of every range
  it has.
\<close>

definition finite_widths :: "threshold_range \<Rightarrow> bool" where
  "finite_widths r \<longleftrightarrow>
     isFinite (jsub (ToNumber (idealMin r)) (ToNumber (min_r r))) \<and>
     isFinite (jsub (ToNumber (max_r r)) (ToNumber (idealMax r)))"

definition well_formed_reqs :: "crop_reqs \<Rightarrow> bool" where
  "well_formed_reqs reqs \<longleftrightarrow>
     finite_widths (temperatureC reqs) \<and> finite_widths (soilPh reqs) \<and>
     (case annualRainfallMm reqs of None \<Rightarrow> True | Some r \<Rightarrow> finite_widths r) \<and>
     (case solarMJm2day reqs of None \<Rightarrow> True | Some r \<Rightarrow> finite_widths r)"

section \<open>Sample inputs\<close>

definition range_0_20_30_40 :: threshold_range where
  "range_0_20_30_40 = num_range 0 20 30 40"

definition range_5_5_8_10 :: threshold_range where
  "range_5_5_8_10 = num_range 5 5 8 10"

text \<open>
  An ordered range of finite bounds whose widths overflow: \<open>2\<^sup>1\<^sup>0\<^sup>2\<^sup>3\<close> and its negative
  are doubles, their difference \<open>2\<^sup>1\<^sup>0\<^sup>2\<^sup>4\<close> is not.
\<close>

definition big_double :: real where
  "big_double = 2 ^ 1023"

definition overflowing_range :: threshold_range where
  "overflowing_range = num_range (- big_double) big_double big_double big_double"

text \<open>A range object without any of its four fields, as \<^verbatim>\<open>{}\<close>.\<close>

definition empty_range :: threshold_range where
  "empty_range =
     \<lparr>min_r = Undefined, max_r = Undefined, idealMin = Undefined, idealMax = Undefined\<rparr>"

text \<open>
  A crop, and a site where nothing fits it: temperature, rainfall, solar radiation and
  soil pH are all outside the crop's ranges and the soil holds no organic carbon.
\<close>

definition sample_reqs :: crop_reqs where
  "sample_reqs =
     \<lparr>temperatureC = num_range 10 18 27 35,
      annualRainfallMm = Some (num_range 500 800 1200 2000),
      solarMJm2day = Some (num_range 10 15 25 30),
      soilPh = num_range 5 6 7 8,
      soilTexture = \<lparr>clayMax = Number (Fin 40), sandMax = Number (Fin 60)\<rparr>\<rparr>"

definition hostile_climate :: climate where
  "hostile_climate = \<lparr>tempC = Fin 45, annualRainMm = Fin 100, solarMJ = Fin 5\<rparr>"

definition hostile_soil :: soil where
  "hostile_soil =
     \<lparr>ph = Some (Fin 9), soc = Some (Fin 0), clay = Some (Fin 50), silt = Some (Fin 20),
      sand = Some (Fin 30)\<rparr>"

text \<open>
  A site that suits the crop, a soil whose pH is unknown, and the same crop with a
  temperature range that lost its fields.
\<close>

definition mild_climate :: climate where
  "mild_climate = \<lparr>tempC = Fin 22, annualRainMm = Fin 900, solarMJ = Fin 20\<rparr>"

definition mild_soil :: soil where
  "mild_soil =
     \<lparr>ph = Some NaN, soc = Some (Fin 15), clay = Some (Fin 25), silt = Some (Fin 35),
      sand = Some (Fin 40)\<rparr>"

definition broken_reqs :: crop_reqs where
  "broken_reqs = sample_reqs\<lparr>temperatureC := empty_range\<rparr>"

text \<open>
  The same crop with the ordered temperature range whose widths overflow, at a site
  whose temperature is the lower bound of that range.
\<close>

definition overflowing_reqs :: crop_reqs where
  "overflowing_reqs = sample_reqs\<lparr>temperatureC := overflowing_range\<rparr>"

definition extreme_climate :: climate where
  "extreme_climate = \<lparr>tempC = Fin (- big_double), annualRainMm = Fin 900, solarMJ = Fin 20\<rparr>"

text \<open>
  Two answers of the model, one without \<^verbatim>\<open>soilTexture\<close> and one with the three
  required keys; and a climate and a soil whose numbers are unknown or not finite.
\<close>

definition json_without_texture :: gemini_json where
  "json_without_texture =
     \<lparr>json_temperatureC = Some (num_range 10 18 27 35),
      json_annualRainfallMm = None,
      json_solarMJm2day = None,
      json_soilPh = Some (num_range 5 6 7 8),
      json_soilTexture = None\<rparr>"

definition json_complete :: gemini_json where
  "json_complete =
     \<lparr>json_temperatureC = Some (num_range 10 18 27 35),
      json_annualRainfallMm = None,
      json_solarMJm2day = None,
      json_soilPh = Some (num_range 5 6 7 8),
      json_soilTexture = Some \<lparr>clayMax = Number (Fin 40), sandMax = Number (Fin 60)\<rparr>\<rparr>"

definition unknown_climate :: climate where
  "unknown_climate = \<lparr>tempC = NaN, annualRainMm = Fin 0, solarMJ = NaN\<rparr>"

definition unknown_soil :: soil where
  "unknown_soil = \<lparr>ph = None, soc = None, clay = None, silt = None, sand = Some PInf\<rparr>"


section \<open>Arithmetic of JavaScript numbers\<close>

lemma overflow_bound_big: "10 ^ 9 < overflow_bound"
  by (simp add: overflow_bound_def)

lemma overflow_bound_gt: "2 < overflow_bound"
  by (simp add: overflow_bound_def)

lemma fl_small: "\<bar>x\<bar> \<le> 10 ^ 9 \<Longrightarrow> fl x = Fin x"
  using overflow_bound_big by (auto simp add: fl_def)

lemma fl_unit: "- 2 \<le> x \<Longrightarrow> x \<le> 2 \<Longrightarrow> fl x = Fin x"
  using overflow_bound_gt by (auto simp add: fl_def)

lemma fl_not_NaN: "fl x \<noteq> NaN"
  by (simp add: fl_def)

lemma fl_eq_Fin: "fl x = Fin y \<longleftrightarrow> y = x \<and> - overflow_bound < x \<and> x < overflow_bound"
  using overflow_bound_gt by (auto simp add: fl_def)

lemma fl_eq_PInf: "fl x = PInf \<longleftrightarrow> overflow_bound \<le> x"
  by (simp add: fl_def)

lemma fl_eq_NInf: "fl x = NInf \<longleftrightarrow> x \<le> - overflow_bound"
  using overflow_bound_gt by (auto simp add: fl_def)


lemma Math_min_Fin: "Math_min (Fin a) (Fin b) = Fin (min a b)"
  by (simp add: Math_min_def min_def)

lemma Math_max_Fin: "Math_max (Fin a) (Fin b) = Fin (max a b)"
  by (simp add: Math_max_def max_def)

lemma jsub_Fin: "jsub (Fin a) (Fin b) = fl (a - b)"
  by (simp add: jsub_def)

lemma jgt_Fin: "jgt (Fin a) (Fin b) = (b < a)"
  by (simp add: jgt_def)

lemma jge_Fin: "jge (Fin a) (Fin b) = (b \<le> a)"
  by (simp add: jge_def)

lemmas js_Fin = Math_min_Fin Math_max_Fin jsub_Fin jgt_Fin jge_Fin

lemma clamp_fl:
  "Math_max (Fin 0) (Math_min (Fin 1) (fl x)) = Fin (max 0 (min 1 x))"
  using overflow_bound_gt by (auto simp add: fl_def Math_min_def Math_max_def)

lemma clamp_PInf: "Math_max (Fin 0) (Math_min (Fin 1) PInf) = Fin 1"
  by (simp add: Math_min_def Math_max_def)

lemma clamp_NInf: "Math_max (Fin 0) (Math_min (Fin 1) NInf) = Fin 0"
  by (simp add: Math_min_def Math_max_def)


lemma clamp_unit:
  "x \<noteq> NaN \<Longrightarrow> \<exists>c. Math_max (Fin 0) (Math_min (Fin 1) x) = Fin c \<and> 0 \<le> c \<and> c \<le> 1"
  by (cases x) (auto simp add: Math_min_def Math_max_def)






lemma jsub_fl_zero: "jsub (fl y) (Fin 0) = fl y"
  using overflow_bound_gt by (auto simp add: fl_def jsub_def)


section \<open>Lemmas on the fit evaluator\<close>

lemma rangeFit_unknown: "\<not> isFinite v \<or> r = None \<Longrightarrow> rangeFit v r = Fin (1 / 2)"
  by (cases r) (auto simp add: rangeFit_def)

lemma rangeFit_outside:
  "has_bounds r a b c d \<Longrightarrow> v < a \<or> d < v \<Longrightarrow> rangeFit (Fin v) (Some r) = Fin 0"
  by (auto simp add: rangeFit_def has_bounds_def js_Fin)

lemma rangeFit_ideal:
  "has_bounds r a b c d \<Longrightarrow> a \<le> v \<Longrightarrow> v \<le> d \<Longrightarrow> b \<le> v \<Longrightarrow> v \<le> c
     \<Longrightarrow> rangeFit (Fin v) (Some r) = Fin 1"
  by (auto simp add: rangeFit_def has_bounds_def js_Fin)

lemma rangeFit_low:
  assumes "has_bounds r a b c d" "a \<le> v" "v \<le> d" "v < b"
  shows "rangeFit (Fin v) (Some r) =
     jsub (Fin 1) (jmul (Fin 0.6) (Math_min (Fin 1) (jdiv (fl (b - v)) (fl (b - a)))))"
  using assms by (simp add: rangeFit_def has_bounds_def js_Fin Let_def not_less not_le)

lemma rangeFit_high:
  assumes "has_bounds r a b c d" "a \<le> v" "v \<le> d" "b \<le> v" "c < v"
  shows "rangeFit (Fin v) (Some r) =
     jsub (Fin 1) (jmul (Fin 0.6) (Math_min (Fin 1) (jdiv (fl (v - c)) (fl (d - c)))))"
  using assms by (simp add: rangeFit_def has_bounds_def js_Fin Let_def not_less not_le)

lemma penalty_real:
  assumes "0 < x" "x \<le> w" "w < overflow_bound"
  shows "jsub (Fin 1) (jmul (Fin 0.6) (Math_min (Fin 1) (jdiv (fl x) (fl w)))) =
           Fin (1 - 0.6 * (x / w))"
    and "x / w \<le> 1" and "0 < x / w"
proof -
  have fx: "fl x = Fin x" and fw: "fl w = Fin w"
    using assms overflow_bound_gt by (simp_all add: fl_eq_Fin)
  show q1: "x / w \<le> 1" and q0: "0 < x / w" using assms by simp_all
  then have fq: "fl (x / w) = Fin (x / w)" by (intro fl_unit) simp_all
  have m: "min 1 (x / w) = x / w" using q1 by simp
  have "0 \<le> 0.6 * (x / w)" "0.6 * (x / w) \<le> 0.6" using q0 q1 by simp_all
  then have f6: "fl (0.6 * (x / w)) = Fin (0.6 * (x / w))"
    and f1: "fl (1 - 0.6 * (x / w)) = Fin (1 - 0.6 * (x / w))"
    by (intro fl_unit; simp)+
  from assms have "w \<noteq> 0" by simp
  then show "jsub (Fin 1) (jmul (Fin 0.6) (Math_min (Fin 1) (jdiv (fl x) (fl w)))) =
           Fin (1 - 0.6 * (x / w))"
    by (simp only: fx fw jdiv.simps if_False fq Math_min_Fin m jmul.simps f6 jsub_Fin f1)
qed

lemma isFinite_jsub:
  "isFinite (jsub x y) \<Longrightarrow> \<exists>a b. x = Fin a \<and> y = Fin b \<and> a - b < overflow_bound"
  by (cases x; cases y) (auto simp add: jsub_def fl_def split: if_splits)

lemma finite_widths_bounds:
  assumes "finite_widths r"
  shows "\<exists>a b c d. has_bounds r a b c d \<and> b - a < overflow_bound \<and> d - c < overflow_bound"
proof -
  from assms obtain b a where 1: "ToNumber (idealMin r) = Fin b" "ToNumber (min_r r) = Fin a"
    "b - a < overflow_bound"
    unfolding finite_widths_def using isFinite_jsub by blast
  from assms obtain d c where 2: "ToNumber (max_r r) = Fin d" "ToNumber (idealMax r) = Fin c"
    "d - c < overflow_bound"
    unfolding finite_widths_def using isFinite_jsub by blast
  from 1 2 show ?thesis unfolding has_bounds_def by blast
qed

lemma rangeFit_bounds_cases:
  assumes hb: "has_bounds r a b c d" and w: "b - a < overflow_bound" "d - c < overflow_bound"
  shows "\<exists>x. rangeFit (Fin v) (Some r) = Fin x \<and> (x = 0 \<or> (2 / 5 \<le> x \<and> x \<le> 1))"
proof -
  consider (out) "v < a \<or> d < v"
    | (ideal) "a \<le> v" "v \<le> d" "b \<le> v" "v \<le> c"
    | (low) "a \<le> v" "v \<le> d" "v < b"
    | (high) "a \<le> v" "v \<le> d" "b \<le> v" "c < v"
    by linarith
  then show ?thesis
  proof cases
    case out
    with hb show ?thesis by (simp add: rangeFit_outside)
  next
    case ideal
    with hb show ?thesis by (simp add: rangeFit_ideal)
  next
    case low
    have x: "0 < b - v" "b - v \<le> b - a" using low by simp_all
    note p = penalty_real [OF x w(1)]
    have "rangeFit (Fin v) (Some r) = Fin (1 - 0.6 * ((b - v) / (b - a)))"
      using rangeFit_low [OF hb low] p(1) by simp
    moreover define q where "q = (b - v) / (b - a)"
    moreover have "2 / 5 \<le> 1 - 0.6 * q" "1 - 0.6 * q \<le> 1"
      using p(2,3) unfolding q_def [symmetric] by simp_all
    ultimately show ?thesis by blast
  next
    case high
    have x: "0 < v - c" "v - c \<le> d - c" using high by simp_all
    note p = penalty_real [OF x w(2)]
    have "rangeFit (Fin v) (Some r) = Fin (1 - 0.6 * ((v - c) / (d - c)))"
      using rangeFit_high [OF hb high] p(1) by simp
    moreover define q where "q = (v - c) / (d - c)"
    moreover have "2 / 5 \<le> 1 - 0.6 * q" "1 - 0.6 * q \<le> 1"
      using p(2,3) unfolding q_def [symmetric] by simp_all
    ultimately show ?thesis by blast
  qed
qed

lemma rangeFit_cases:
  assumes "r = None \<or> (\<exists>t. r = Some t \<and> finite_widths t)"
  shows "\<exists>x. rangeFit v r = Fin x \<and> (x = 0 \<or> x = 1 / 2 \<or> (2 / 5 \<le> x \<and> x \<le> 1))"
proof (cases "isFinite v \<and> r \<noteq> None")
  case True
  with assms obtain u t where vr: "v = Fin u" "r = Some t" and fw: "finite_widths t"
    by (cases v) auto
  from finite_widths_bounds [OF fw] obtain a b c d where
    "has_bounds t a b c d" "b - a < overflow_bound" "d - c < overflow_bound" by blast
  from rangeFit_bounds_cases [OF this, of u] show ?thesis unfolding vr by blast
next
  case False
  then have "rangeFit v r = Fin (1 / 2)" by (intro rangeFit_unknown) auto
  then show ?thesis by (intro exI [of _ "1 / 2"]) simp
qed

lemma rangeFit_unit:
  assumes "r = None \<or> (\<exists>t. r = Some t \<and> finite_widths t)"
  shows "\<exists>x. rangeFit v r = Fin x \<and> 0 \<le> x \<and> x \<le> 1"
  using rangeFit_cases [OF assms, of v] by auto


section \<open>Lemmas on one step of the growth loop\<close>

lemma clamp_raw_update:
  assumes "D = Fin 0 \<and> g \<noteq> NaN \<or>
           (D = PInf \<or> (\<exists>\<delta>. D = Fin \<delta> \<and> 0 \<le> \<delta>)) \<and> (g = NInf \<or> (\<exists>\<gamma>. g = Fin \<gamma> \<and> \<gamma> < 1))"
  shows "\<exists>k. \<forall>b. 0 \<le> b \<and> b \<le> 1 \<longrightarrow>
           Math_max (Fin 0) (Math_min (Fin 1) (jsub (jadd (Fin b) g) D)) = Fin (max 0 (min 1 (b + k)))"
proof -
  have up: "\<exists>k. \<forall>b. 0 \<le> b \<and> b \<le> 1 \<longrightarrow>
      Math_max (Fin 0) (Math_min (Fin 1) (jsub (jadd (Fin b) g) D)) = Fin (max 0 (min 1 (b + k)))"
    if "\<And>b. 0 \<le> b \<Longrightarrow> b \<le> 1 \<Longrightarrow> jsub (jadd (Fin b) g) D = PInf"
    using that by (intro exI [of _ 1]) (simp add: clamp_PInf)
  have down: "\<exists>k. \<forall>b. 0 \<le> b \<and> b \<le> 1 \<longrightarrow>
      Math_max (Fin 0) (Math_min (Fin 1) (jsub (jadd (Fin b) g) D)) = Fin (max 0 (min 1 (b + k)))"
    if "\<And>b. 0 \<le> b \<Longrightarrow> b \<le> 1 \<Longrightarrow> jsub (jadd (Fin b) g) D = NInf"
    using that by (intro exI [of _ "- 1"]) (simp add: clamp_NInf)
  from assms consider
      (z_fin) \<gamma> where "D = Fin 0" "g = Fin \<gamma>"
    | (z_pinf) "D = Fin 0" "g = PInf"
    | (g_ninf) "g = NInf" "D = PInf \<or> (\<exists>\<delta>. D = Fin \<delta>)"
    | (d_pinf) \<gamma> where "D = PInf" "g = Fin \<gamma>" "\<gamma> < 1"
    | (both) \<gamma> \<delta> where "D = Fin \<delta>" "0 \<le> \<delta>" "g = Fin \<gamma>" "\<gamma> < 1"
    by (cases g) auto
  then show ?thesis
  proof cases
    case z_fin
    show ?thesis
      by (intro exI [of _ \<gamma>]) (simp add: z_fin jsub_fl_zero clamp_fl)
  next
    case z_pinf
    show ?thesis by (rule up) (simp add: z_pinf jsub_def)
  next
    case g_ninf
    show ?thesis by (rule down) (use g_ninf in \<open>auto simp add: jsub_def\<close>)
  next
    case d_pinf
    show ?thesis
    proof (rule down)
      fix b :: real assume "0 \<le> b" "b \<le> 1"
      with d_pinf overflow_bound_gt have "fl (b + \<gamma>) \<noteq> PInf" by (simp add: fl_eq_PInf)
      then show "jsub (jadd (Fin b) g) D = NInf"
        by (cases "fl (b + \<gamma>)") (simp_all add: d_pinf jsub_def fl_not_NaN)
    qed
  next
    case both
    show ?thesis
    proof (intro exI [of _ "\<gamma> - \<delta>"] allI impI)
      fix b :: real assume b: "0 \<le> b \<and> b \<le> 1"
      show "Math_max (Fin 0) (Math_min (Fin 1) (jsub (jadd (Fin b) g) D)) =
          Fin (max 0 (min 1 (b + (\<gamma> - \<delta>))))"
      proof (cases "b + \<gamma> \<le> - overflow_bound")
        case True
        then have "fl (b + \<gamma>) = NInf" by (simp add: fl_eq_NInf)
        moreover from True both overflow_bound_gt have "b + (\<gamma> - \<delta>) \<le> 0" by simp
        ultimately show ?thesis by (simp add: both jsub_def clamp_NInf)
      next
        case False
        with b both overflow_bound_gt have "fl (b + \<gamma>) = Fin (b + \<gamma>)"
          by (simp add: fl_eq_Fin)
        then have "jsub (jadd (Fin b) g) D = fl (b + \<gamma> - \<delta>)"
          by (simp add: both jsub_Fin)
        then show ?thesis by (simp add: clamp_fl algebra_simps)
      qed
    qed
  qed
qed

lemma growthRate_Fin: "growthRate (Fin e) = jadd (Fin 0.012) (fl (0.018 * e))"
  by (simp add: growthRate_def GROWTH_baseRate_def GROWTH_envFactor_def)

lemma stress_Fin: "stress (Fin e) = fl (1 - e)"
  by (simp add: stress_def js_Fin)

lemma decay_unfold:
  "decay x = (if jgt x (Fin 0.6) then jmul (jsub x (Fin 0.6)) (Fin 0.04) else Fin 0)"
  by (simp add: decay_def GROWTH_stressThreshold_def GROWTH_decayFactor_def)

lemma decay_nonneg:
  "decay x = PInf \<or> (\<exists>\<delta>. decay x = Fin \<delta> \<and> 0 \<le> \<delta>)"
proof (cases "jgt x (Fin 0.6)")
  case False
  then have "decay x = Fin 0" by (simp add: decay_unfold)
  then show ?thesis by simp
next
  case True
  then have d: "decay x = jmul (jsub x (Fin 0.6)) (Fin 0.04)" by (simp add: decay_unfold)
  from True consider (inf) "x = PInf" | (fin) s where "x = Fin s" "0.6 < s"
    by (cases x) (simp_all add: jgt_def)
  then show ?thesis
  proof cases
    case inf
    with d have "decay x = PInf" by (simp add: jsub_def inf_of_sign_def)
    then show ?thesis by simp
  next
    case fin
    show ?thesis
    proof (cases "overflow_bound \<le> s - 0.6")
      case True
      then have "fl (s - 0.6) = PInf" by (simp add: fl_eq_PInf)
      with d fin have "decay x = PInf" by (simp add: jsub_Fin inf_of_sign_def)
      then show ?thesis by simp
    next
      case False
      with fin overflow_bound_gt have "fl (s - 0.6) = Fin (s - 0.6)" by (simp add: fl_eq_Fin)
      with d fin have dd: "decay x = fl ((s - 0.6) * 0.04)" by (simp add: jsub_Fin)
      have pos: "0 \<le> (s - 0.6) * 0.04" using fin by simp
      show ?thesis
      proof (cases "overflow_bound \<le> (s - 0.6) * 0.04")
        case True
        then have "decay x = PInf" unfolding dd by (simp only: fl_eq_PInf)
        then show ?thesis by simp
      next
        case False
        with pos overflow_bound_gt have "decay x = Fin ((s - 0.6) * 0.04)"
          unfolding dd by (simp only: fl_eq_Fin) simp
        with pos show ?thesis by blast
      qed
    qed
  qed
qed

lemma growth_regimes:
  assumes "env \<noteq> NaN"
  shows "decay (stress env) = Fin 0 \<and> growthRate env \<noteq> NaN \<or>
         (decay (stress env) = PInf \<or> (\<exists>\<delta>. decay (stress env) = Fin \<delta> \<and> 0 \<le> \<delta>)) \<and>
         (growthRate env = NInf \<or> (\<exists>\<gamma>. growthRate env = Fin \<gamma> \<and> \<gamma> < 1))"
proof (cases env)
  case (Fin e)
  show ?thesis
  proof (cases "e < 0.4")
    case True
    have "fl (0.018 * e) = NInf \<or> fl (0.018 * e) = Fin (0.018 * e)"
      using True overflow_bound_gt by (auto simp add: fl_def)
    moreover have "fl (0.012 + 0.018 * e) = NInf \<or> fl (0.012 + 0.018 * e) = Fin (0.012 + 0.018 * e)"
      using True overflow_bound_gt by (auto simp add: fl_def)
    moreover have "0.012 + 0.018 * e < 1" using True by simp
    ultimately have "growthRate env = NInf \<or> (\<exists>\<gamma>. growthRate env = Fin \<gamma> \<and> \<gamma> < 1)"
      by (auto simp add: Fin growthRate_Fin)
    with decay_nonneg [of "stress env"] show ?thesis by blast
  next
    case False
    then have "fl (1 - e) = NInf \<or> fl (1 - e) = Fin (1 - e)"
      using overflow_bound_gt by (auto simp add: fl_def)
    with False have "decay (stress env) = Fin 0"
      by (auto simp add: Fin stress_Fin decay_unfold js_Fin jgt_def)
    moreover have "growthRate env \<noteq> NaN"
      by (cases "fl (0.018 * e)") (simp_all add: Fin growthRate_Fin fl_not_NaN)
    ultimately show ?thesis by blast
  qed
next
  case PInf
  then show ?thesis
    by (simp add: growthRate_def stress_def jsub_def decay_unfold jgt_def inf_of_sign_def
        GROWTH_envFactor_def)
next
  case NInf
  then show ?thesis
    by (simp add: growthRate_def stress_def jsub_def decay_unfold jgt_def inf_of_sign_def
        GROWTH_envFactor_def)
next
  case NaN
  with assms show ?thesis by simp
qed

lemma shock_fin: "\<exists>sh. shock reqs climR = Fin sh \<and> 0 \<le> sh \<and> sh \<le> 1"
proof (cases "jlt (annualRainMm climR) (minRain reqs)")
  case True
  then have "shock reqs climR = Fin 0.003" by (simp add: shock_def)
  then show ?thesis by (intro exI [of _ "0.003"]) simp
next
  case False
  then show ?thesis by (simp add: shock_def)
qed

lemma biomass_step_shape:
  assumes "env \<noteq> NaN"
  shows "\<exists>k sh. 0 \<le> sh \<and> (\<forall>b. 0 \<le> b \<and> b \<le> 1 \<longrightarrow>
           biomass_step reqs climR env (Fin b) = Fin (max 0 (max 0 (min 1 (b + k)) - sh)))"
proof -
  from clamp_raw_update [OF growth_regimes [OF assms]] obtain k where
    k: "\<And>b. 0 \<le> b \<Longrightarrow> b \<le> 1 \<Longrightarrow>
      Math_max (Fin 0) (Math_min (Fin 1) (jsub (jadd (Fin b) (growthRate env)) (decay (stress env)))) =
        Fin (max 0 (min 1 (b + k)))"
    by blast
  obtain sh where sh: "shock reqs climR = Fin sh" "0 \<le> sh" "sh \<le> 1"
    using shock_fin [of reqs climR] by blast
  have "biomass_step reqs climR env (Fin b) = Fin (max 0 (max 0 (min 1 (b + k)) - sh))"
    if "0 \<le> b" "b \<le> 1" for b
  proof -
    have "fl (max 0 (min 1 (b + k)) - sh) = Fin (max 0 (min 1 (b + k)) - sh)"
      using sh by (intro fl_unit) (simp_all add: max_def min_def)
    then show ?thesis
      by (simp add: biomass_step_def Let_def k [OF that] sh(1) js_Fin)
  qed
  with sh(2) show ?thesis by blast
qed

lemma jadd_NaN_right: "jadd x NaN = NaN"
  by (cases x) simp_all

lemma biomass_step_NaN: "biomass_step reqs climR NaN x = NaN"
  by (simp add: biomass_step_def growthRate_def jsub_def Math_min_def Math_max_def Let_def
      jadd_NaN_right)


section \<open>Lemmas on the growth loop\<close>


lemma overflow_example: "rangeFit (Fin (- big_double)) (Some overflowing_range) = NaN"
proof -
  have d: "fl (2 * big_double) = PInf"
    by (simp add: fl_def overflow_bound_def big_double_def)
  have lt: "- big_double < big_double" by (simp add: big_double_def)
  show ?thesis
    using lt by (simp add: rangeFit_def overflowing_range_def num_range_def js_Fin Let_def d
        Math_min_def jsub_def)
qed

lemma empty_example: "rangeFit (Fin 22) (Some empty_range) = NaN"
  by (simp add: rangeFit_def empty_range_def jgt_def jge_def jsub_def Let_def Math_min_def)

lemma run_prefix:
  "fold (loop_body reqs climR env) [1..<Suc n] (Fin 0, True, []) =
     (biomass_at reqs climR env n, alive_at reqs climR env n,
      map (frame_at reqs climR env) [1..<Suc n])"
proof (induction n)
  case 0
  show ?case by simp
next
  case (Suc n)
  have "[1..<Suc (Suc n)] = [1..<Suc n] @ [Suc n]" by simp
  then have "fold (loop_body reqs climR env) [1..<Suc (Suc n)] (Fin 0, True, []) =
      loop_body reqs climR env (Suc n)
        (biomass_at reqs climR env n, alive_at reqs climR env n,
         map (frame_at reqs climR env) [1..<Suc n])"
    using Suc.IH by (simp only: fold_append fold_simps comp_apply)
  also have "\<dots> = (biomass_at reqs climR env (Suc n), alive_at reqs climR env (Suc n),
      map (frame_at reqs climR env) [1..<Suc (Suc n)])"
    by (simp add: loop_body_def Let_def frame_at_def)
  finally show ?case .
qed

lemma run_loop_eq:
  "run_loop reqs climR env =
     (biomass_at reqs climR env days, alive_at reqs climR env days,
      map (frame_at reqs climR env) [1..<Suc days])"
  unfolding run_loop_def by (rule run_prefix)

lemma clamp_step_mono:
  fixes b :: real
  shows "b \<le> b' \<Longrightarrow>
    max 0 (max 0 (min 1 (b + k)) - s) \<le> max 0 (max 0 (min 1 (b' + k)) - s)"
  by (simp add: max_def min_def)

lemma clamp_step_unit:
  fixes b :: real
  shows "0 \<le> s \<Longrightarrow> 0 \<le> max 0 (max 0 (min 1 (b + k)) - s) \<and>
    max 0 (max 0 (min 1 (b + k)) - s) \<le> 1"
  by (simp add: max_def min_def)

lemma biomass_at_mono:
  assumes "env \<noteq> NaN"
  shows "\<exists>b b'. biomass_at reqs climR env n = Fin b \<and>
     biomass_at reqs climR env (Suc n) = Fin b' \<and> 0 \<le> b \<and> b \<le> b' \<and> b' \<le> 1"
proof -
  from biomass_step_shape [OF assms, of reqs climR] obtain k s where s: "0 \<le> s"
    and step: "\<And>b. 0 \<le> b \<Longrightarrow> b \<le> 1 \<Longrightarrow>
      biomass_step reqs climR env (Fin b) = Fin (max 0 (max 0 (min 1 (b + k)) - s))"
    by blast
  show ?thesis
  proof (induction n)
    case 0
    show ?case using clamp_step_unit [OF s, of 0 k] by (simp add: step)
  next
    case (Suc n)
    then obtain b b' where b: "biomass_at reqs climR env n = Fin b"
      "biomass_at reqs climR env (Suc n) = Fin b'" "0 \<le> b" "b \<le> b'" "b' \<le> 1"
      by blast
    then have b1: "b \<le> 1" and b0': "0 \<le> b'" by simp_all
    have eq: "b' = max 0 (max 0 (min 1 (b + k)) - s)"
      using b(1,2) step [OF b(3) b1] by simp
    have next_eq: "biomass_at reqs climR env (Suc (Suc n)) =
        Fin (max 0 (max 0 (min 1 (b' + k)) - s))"
      using b(2) step [OF b0' b(5)] by simp
    have "b' \<le> max 0 (max 0 (min 1 (b' + k)) - s)"
      using clamp_step_mono [OF b(4), of k s] by (simp only: eq [symmetric])
    moreover have "max 0 (max 0 (min 1 (b' + k)) - s) \<le> 1"
      using clamp_step_unit [OF s] by blast
    ultimately show ?case using b(2) b0' next_eq by blast
  qed
qed

lemma biomass_at_fin:
  assumes "env \<noteq> NaN"
  shows "\<exists>b. biomass_at reqs climR env n = Fin b \<and> 0 \<le> b \<and> b \<le> 1"
proof (cases n)
  case 0
  then show ?thesis by simp
next
  case (Suc m)
  with biomass_at_mono [OF assms, of reqs climR m] show ?thesis by auto
qed

lemma biomass_at_NaN: "0 < n \<Longrightarrow> biomass_at reqs climR NaN n = NaN"
  by (cases n) (simp_all add: biomass_step_NaN)

lemma biomass_at_le:
  assumes "env \<noteq> NaN"
  shows "n \<le> m \<Longrightarrow> \<exists>b b'. biomass_at reqs climR env n = Fin b \<and>
     biomass_at reqs climR env m = Fin b' \<and> 0 \<le> b \<and> b \<le> b'"
proof (induction m)
  case 0
  then show ?case by simp
next
  case (Suc m)
  show ?case
  proof (cases "n = Suc m")
    case True
    with biomass_at_mono [OF assms, of reqs climR m] show ?thesis by auto
  next
    case False
    with Suc.prems have "n \<le> m" by simp
    with Suc.IH obtain b b' where b: "biomass_at reqs climR env n = Fin b"
      "biomass_at reqs climR env m = Fin b'" "0 \<le> b" "b \<le> b'"
      by blast
    from biomass_at_mono [OF assms, of reqs climR m] b(2)
    obtain b'' where "biomass_at reqs climR env (Suc m) = Fin b''" "b' \<le> b''"
      by auto
    with b show ?thesis by auto
  qed
qed

lemma biomass_at_stuck:
  assumes "biomass_step reqs climR env (Fin 0) = Fin 0"
  shows "biomass_at reqs climR env m = Fin 0"
  by (induction m) (simp_all add: assms)

lemma biomass_at_zero_all:
  assumes "env \<noteq> NaN" "biomass_at reqs climR env d = Fin 0" "0 < d"
  shows "biomass_step reqs climR env (Fin 0) = Fin 0"
    and "biomass_at reqs climR env m = Fin 0"
proof -
  from \<open>0 < d\<close> have "Suc 0 \<le> d" by simp
  from biomass_at_le [OF assms(1) this, of reqs climR] assms(2)
  have "biomass_at reqs climR env (Suc 0) = Fin 0" by auto
  then show stuck: "biomass_step reqs climR env (Fin 0) = Fin 0" by simp
  then show "biomass_at reqs climR env m = Fin 0" by (rule biomass_at_stuck)
qed


section \<open>Lemmas on survival and on the response\<close>

lemma alive_at_dead:
  "\<not> alive_at reqs climR env n \<Longrightarrow>
     \<exists>d. 20 < d \<and> d \<le> n \<and> biomass_at reqs climR env d = Fin 0 \<and> jgt (stress env) (Fin 0.7)"
proof (induction n)
  case 0
  then show ?case by simp
next
  case (Suc n)
  show ?case
  proof (cases "biomass_at reqs climR env (Suc n) = Fin 0 \<and> Suc n > 20 \<and> jgt (stress env) (Fin 0.7)")
    case True
    then show ?thesis by (intro exI [of _ "Suc n"]) simp
  next
    case False
    with Suc.prems have "\<not> alive_at reqs climR env n" by (simp split: if_splits)
    with Suc.IH obtain d where "20 < d" "d \<le> n" "biomass_at reqs climR env d = Fin 0"
      "jgt (stress env) (Fin 0.7)" by blast
    then show ?thesis by (intro exI [of _ d]) simp
  qed
qed

lemma alive_at_antitone:
  "\<not> alive_at reqs climR env n \<Longrightarrow> n \<le> m \<Longrightarrow> \<not> alive_at reqs climR env m"
proof (induction m)
  case 0
  then show ?case by simp
next
  case (Suc m)
  show ?case
  proof (cases "n = Suc m")
    case True
    with Suc.prems show ?thesis by simp
  next
    case False
    with Suc.prems have "n \<le> m" by simp
    with Suc have "\<not> alive_at reqs climR env m" by blast
    then show ?thesis by simp
  qed
qed

lemma toFixed3_unit:
  assumes "0 \<le> b" "b \<le> 1"
  shows "\<exists>x. toFixed3 (Fin b) = Fin x \<and> 0 \<le> x \<and> x \<le> 1"
proof -
  have small: "\<not> 10 ^ 21 \<le> \<bar>b\<bar>" using assms by simp
  have "\<lfloor>\<bar>b\<bar> * 1000 + 1 / 2\<rfloor> \<le> 1000" using assms by (simp add: floor_le_iff)
  then have up: "real_of_int \<lfloor>\<bar>b\<bar> * 1000 + 1 / 2\<rfloor> \<le> 1000" by linarith
  have "0 \<le> \<lfloor>\<bar>b\<bar> * 1000 + 1 / 2\<rfloor>" using assms by simp
  then have lo: "0 \<le> real_of_int \<lfloor>\<bar>b\<bar> * 1000 + 1 / 2\<rfloor>" by linarith
  show ?thesis
  proof (cases "b = 0")
    case True
    then show ?thesis by simp
  next
    case False
    with assms have "sgn b = 1" by simp
    then have "toFixed3 (Fin b) = Fin (real_of_int \<lfloor>\<bar>b\<bar> * 1000 + 1 / 2\<rfloor> / 1000)"
      using small by simp
    moreover have "0 \<le> real_of_int \<lfloor>\<bar>b\<bar> * 1000 + 1 / 2\<rfloor> / 1000" using lo by simp
    moreover have "real_of_int \<lfloor>\<bar>b\<bar> * 1000 + 1 / 2\<rfloor> / 1000 \<le> 1" using up by simp
    ultimately show ?thesis by blast
  qed
qed


lemma nth_frames:
  "i < n \<Longrightarrow> map (frame_at reqs climR env) [1..<Suc n] ! i = frame_at reqs climR env (Suc i)"
  by (simp add: nth_append del: upt_Suc)

lemma status_of_frames:
  "status_of (alive_at reqs climR env days) (map (frame_at reqs climR env) [1..<Suc days]) fs =
     Some (if \<not> alive_at reqs climR env days \<and>
              jlt (toFixed3 (biomass_at reqs climR env days)) (Fin 0.2) then ''fail''
           else if jlt fs (Fin 60) then ''struggle''
           else if jlt fs (Fin 80) then ''good''
           else ''great'')"
proof -
  have last: "map (frame_at reqs climR env) [1..<Suc days] ! (days - 1) = frame_at reqs climR env days"
    using nth_frames [of "days - 1" days reqs climR env] by (simp add: days_def)
  have len: "\<not> length (map (frame_at reqs climR env) [1..<Suc days]) \<le> days - 1"
    by (simp add: days_def)
  have bio: "biomass (frame_at reqs climR env days) = toFixed3 (biomass_at reqs climR env days)"
    by (simp add: frame_at_def)
  show ?thesis
    unfolding status_of_def by (simp only: last len bio simp_thms if_False)
qed

lemma evaluate_eq:
  "evaluate reqs climR soilR =
     Some \<lparr>score = finalScore (envScore reqs climR soilR),
           status = status_at reqs climR (envScore reqs climR soilR),
           timeline = map (frame_at reqs climR (envScore reqs climR soilR)) [1..<Suc days],
           fits = \<lparr>temperature = tFit reqs climR, rainfall = rFit reqs climR,
                   solar = sFit reqs climR, soil_fit = soilFit reqs soilR\<rparr>,
           limits = limits_of reqs climR soilR\<rparr>"
  unfolding evaluate_def run_loop_eq Let_def prod.case status_of_frames status_at_def
  by (simp only: option.case)

lemma frames_set:
  "f \<in> set (map (frame_at reqs climR env) [1..<Suc n]) \<longleftrightarrow>
     (\<exists>d. 1 \<le> d \<and> d \<le> n \<and> f = frame_at reqs climR env d)"
  by (auto simp del: upt_Suc)

lemma map_day_frames: "map day (map (frame_at reqs climR env) xs) = xs"
  by (induction xs) (simp_all add: frame_at_def)

lemma evaluate_Some:
  assumes "evaluate reqs climR soilR = Some res"
  shows "timeline res = map (frame_at reqs climR (envScore reqs climR soilR)) [1..<Suc days]"
    and "status res = status_at reqs climR (envScore reqs climR soilR)"
    and "score res = finalScore (envScore reqs climR soilR)"
  using assms unfolding evaluate_eq by (auto simp del: upt_Suc)

lemma last_frames:
  "0 < n \<Longrightarrow> last (map (frame_at reqs climR env) [1..<Suc n]) = frame_at reqs climR env n"
  by simp

lemma getCropData_None_iff:
  "getCropDataFromGemini parsed = None \<longleftrightarrow>
     json_temperatureC parsed = None \<or> json_soilPh parsed = None \<or> json_soilTexture parsed = None"
  by (simp add: getCropDataFromGemini_def split: option.splits)

lemma jlt_NaN_right: "\<not> jlt x NaN"
  by (cases x) simp_all

lemma stress_not_NaN: "jgt (stress env) x \<Longrightarrow> env \<noteq> NaN"
  by (auto simp add: stress_def jsub_def jgt_def jlt_NaN_right)

lemma dead_means_zero:
  assumes "\<not> alive_at reqs climR env n"
  shows "biomass_step reqs climR env (Fin 0) = Fin 0"
    and "biomass_at reqs climR env m = Fin 0"
proof -
  from alive_at_dead [OF assms] obtain d where d: "20 < d" "biomass_at reqs climR env d = Fin 0"
    "jgt (stress env) (Fin 0.7)"
    by blast
  then have pos: "0 < d" and env: "env \<noteq> NaN" by (simp_all add: stress_not_NaN)
  show "biomass_step reqs climR env (Fin 0) = Fin 0"
    using env d(2) pos by (rule biomass_at_zero_all)
  show "biomass_at reqs climR env m = Fin 0"
    using env d(2) pos by (rule biomass_at_zero_all)
qed

lemma status_at_fail_iff:
  "status_at reqs climR env = ''fail'' \<longleftrightarrow> \<not> alive_at reqs climR env days"
proof
  assume "status_at reqs climR env = ''fail''"
  then show "\<not> alive_at reqs climR env days"
    by (auto simp add: status_at_def split: if_splits)
next
  assume dead: "\<not> alive_at reqs climR env days"
  then have "biomass_at reqs climR env days = Fin 0" by (rule dead_means_zero)
  with dead show "status_at reqs climR env = ''fail''"
    by (simp add: status_at_def)
qed


section \<open>The worst case: an environmental score of 0\<close>

lemma hostile_envScore: "envScore sample_reqs hostile_climate hostile_soil = Fin 0"
  by (simp add: envScore_def tFit_def rFit_def sFit_def soilFit_def soilQuality_def phFit_def
      rangeFit_def num_range_def texturePenalty_def socBonus_def or_NaN_def js_Fin Let_def
      fl_small SOIL_texturePenalty_def SOIL_maxSocBonus_def SOIL_socContributionFactor_def
      WEIGHTS_temperature_def WEIGHTS_rainfall_def WEIGHTS_solar_def WEIGHTS_soil_def
      sample_reqs_def hostile_climate_def hostile_soil_def)

lemma worst_biomass_step: "biomass_step reqs climR (Fin 0) (Fin 0) = Fin 0"
proof -
  obtain s where s: "shock reqs climR = Fin s" "0 \<le> s" "s \<le> 1"
    using shock_fin by blast
  have "fl (- s) = Fin (- s)" using s by (intro fl_unit) simp_all
  then show ?thesis
    using s by (simp add: biomass_step_def Let_def growthRate_Fin stress_Fin decay_unfold js_Fin
      fl_small)
qed

lemma worst_biomass_at: "biomass_at reqs climR (Fin 0) n = Fin 0"
  using worst_biomass_step by (rule biomass_at_stuck)

lemma worst_alive_at: "alive_at reqs climR (Fin 0) n = (n \<le> 20)"
  by (induction n)
    (auto simp add: worst_biomass_at stress_Fin js_Fin fl_small simp del: biomass_at.simps)

lemma worst_frame_at:
  "frame_at reqs climR (Fin 0) d =
     \<lparr>day = d, biomass = Fin 0, stage = stage_of d, alive = (d \<le> 20)\<rparr>"
  by (simp add: frame_at_def worst_biomass_at worst_alive_at)

lemma worst_status: "status_at reqs climR (Fin 0) = ''fail''"
  by (simp add: status_at_def worst_biomass_at worst_alive_at days_def)


section \<open>Lemmas on soil quality and the environmental score\<close>

lemma jsub_Fin_bound: "jsub x y = Fin f \<Longrightarrow> f < overflow_bound"
  by (cases x; cases y) (auto simp add: jsub_def fl_eq_Fin)

lemma rangeFit_representable: "rangeFit v r = Fin f \<Longrightarrow> f < overflow_bound"
proof (cases r)
  case None
  assume "rangeFit v r = Fin f"
  with None overflow_bound_gt show ?thesis by (auto simp add: rangeFit_def)
next
  case (Some t)
  assume "rangeFit v r = Fin f"
  with Some overflow_bound_gt show ?thesis
    by (auto simp add: rangeFit_def Let_def dest: jsub_Fin_bound split: if_splits)
qed

lemma texturePenalty_real:
  "texturePenalty reqs c s =
     Fin ((if isFinite c \<and> jgt c (ToNumber (clayMax (soilTexture reqs))) then 1 / 5 else 0) +
          (if isFinite s \<and> jgt s (ToNumber (sandMax (soilTexture reqs))) then 1 / 5 else 0))"
  by (simp add: texturePenalty_def Let_def SOIL_texturePenalty_def fl_small)

lemma texturePenalty_fin: "\<exists>t. texturePenalty reqs c s = Fin t \<and> 0 \<le> t"
  by (simp add: texturePenalty_real)


lemma socBonus_Fin: "socBonus (Fin s) = Math_min (Fin (1 / 5)) (fl (s / 150))"
  by (simp add: socBonus_def SOIL_maxSocBonus_def SOIL_socContributionFactor_def)


lemma Math_min_Fin_cases:
  "y \<noteq> NaN \<Longrightarrow> Math_min (Fin c) y = NInf \<or> (\<exists>b. Math_min (Fin c) y = Fin b)"
  by (cases y) (simp_all add: Math_min_def)

lemma socBonus_cases: "socBonus x = NInf \<or> (\<exists>b. socBonus x = Fin b)"
proof (cases x)
  case (Fin s)
  show ?thesis
    unfolding Fin socBonus_Fin by (rule Math_min_Fin_cases) (rule fl_not_NaN)
qed (simp_all add: socBonus_def)


lemma soilQuality_fin:
  assumes "isFinite (phFit reqs p)"
  shows "\<exists>q. soilQuality reqs p c s x = Fin q \<and> 0 \<le> q \<and> q \<le> 1"
proof -
  from assms obtain f where f: "phFit reqs p = Fin f" by (cases "phFit reqs p") auto
  then have fb: "f < overflow_bound" unfolding phFit_def by (rule rangeFit_representable)
  obtain t where t: "texturePenalty reqs c s = Fin t" "0 \<le> t"
    using texturePenalty_fin by blast
  have "fl (f - t) \<noteq> PInf" using fb t(2) by (simp add: fl_eq_PInf)
  then have "jadd (fl (f - t)) (socBonus x) \<noteq> NaN"
    using socBonus_cases [of x] by (cases "fl (f - t)") (auto simp add: fl_not_NaN)
  then show ?thesis
    unfolding soilQuality_def f t(1) jsub_Fin by (rule clamp_unit)
qed



lemma well_formed_fits:
  assumes "well_formed_reqs reqs"
  shows "\<exists>x. tFit reqs climR = Fin x \<and> 0 \<le> x \<and> x \<le> 1"
    and "\<exists>x. rFit reqs climR = Fin x \<and> 0 \<le> x \<and> x \<le> 1"
    and "\<exists>x. sFit reqs climR = Fin x \<and> 0 \<le> x \<and> x \<le> 1"
    and "\<exists>x. phFit reqs p = Fin x \<and> 0 \<le> x \<and> x \<le> 1"
proof -
  show "\<exists>x. tFit reqs climR = Fin x \<and> 0 \<le> x \<and> x \<le> 1"
    unfolding tFit_def using assms by (intro rangeFit_unit) (simp add: well_formed_reqs_def)
  show "\<exists>x. rFit reqs climR = Fin x \<and> 0 \<le> x \<and> x \<le> 1"
    unfolding rFit_def using assms
    by (intro rangeFit_unit) (auto simp add: well_formed_reqs_def split: option.splits)
  show "\<exists>x. sFit reqs climR = Fin x \<and> 0 \<le> x \<and> x \<le> 1"
    unfolding sFit_def using assms
    by (intro rangeFit_unit) (auto simp add: well_formed_reqs_def split: option.splits)
  show "\<exists>x. phFit reqs p = Fin x \<and> 0 \<le> x \<and> x \<le> 1"
    unfolding phFit_def using assms by (intro rangeFit_unit) (simp add: well_formed_reqs_def)
qed

lemma envScore_fin:
  assumes "well_formed_reqs reqs"
  shows "\<exists>e. envScore reqs climR soilR = Fin e \<and> 0 \<le> e \<and> e \<le> 1"
proof -
  obtain t where t: "tFit reqs climR = Fin t" "0 \<le> t" "t \<le> 1"
    using well_formed_fits(1) [OF assms] by blast
  obtain r where r: "rFit reqs climR = Fin r" "0 \<le> r" "r \<le> 1"
    using well_formed_fits(2) [OF assms] by blast
  obtain s where s: "sFit reqs climR = Fin s" "0 \<le> s" "s \<le> 1"
    using well_formed_fits(3) [OF assms] by blast
  have "isFinite (phFit reqs (or_NaN (ph soilR)))"
    using well_formed_fits(4) [OF assms, of "or_NaN (ph soilR)"] by auto
  then obtain q where q: "soilFit reqs soilR = Fin q" "0 \<le> q" "q \<le> 1"
    unfolding soilFit_def using soilQuality_fin by blast
  have f1: "fl (t * 0.35) = Fin (t * 0.35)" using t by (intro fl_unit) simp_all
  have f2: "fl (r * 0.3) = Fin (r * 0.3)" using r by (intro fl_unit) simp_all
  have f3: "fl (s * 0.15) = Fin (s * 0.15)" using s by (intro fl_unit) simp_all
  have f4: "fl (q * 0.2) = Fin (q * 0.2)" using q by (intro fl_unit) simp_all
  have f5: "fl (t * 0.35 + r * 0.3) = Fin (t * 0.35 + r * 0.3)"
    using t r by (intro fl_unit) simp_all
  have f6: "fl (t * 0.35 + r * 0.3 + s * 0.15) = Fin (t * 0.35 + r * 0.3 + s * 0.15)"
    using t r s by (intro fl_unit) simp_all
  have f7: "fl (t * 0.35 + r * 0.3 + s * 0.15 + q * 0.2) =
      Fin (t * 0.35 + r * 0.3 + s * 0.15 + q * 0.2)"
    using t r s q by (intro fl_unit) simp_all
  have "envScore reqs climR soilR = Fin (t * 0.35 + r * 0.3 + s * 0.15 + q * 0.2)"
    unfolding envScore_def t(1) r(1) s(1) q(1) WEIGHTS_temperature_def WEIGHTS_rainfall_def
      WEIGHTS_solar_def WEIGHTS_soil_def jmul.simps f1 f2 f3 f4 jadd.simps f5 f6 f7 ..
  moreover have "0 \<le> t * 0.35 + r * 0.3 + s * 0.15 + q * 0.2"
    using t r s q by simp
  moreover have "t * 0.35 + r * 0.3 + s * 0.15 + q * 0.2 \<le> 1"
    using t r s q by simp
  ultimately show ?thesis by blast
qed


section \<open>Lemmas on the sample inputs and on well-formed ranges\<close>

lemma jsub_eq_zero: "jsub x y = Fin 0 \<Longrightarrow> \<exists>a. x = Fin a \<and> y = Fin a"
  by (cases x; cases y) (auto simp add: jsub_def fl_eq_Fin)


lemma sample_well_formed: "well_formed_reqs sample_reqs"
  by (simp add: well_formed_reqs_def finite_widths_def sample_reqs_def num_range_def jsub_Fin
      fl_small)


lemma broken_envScore: "envScore broken_reqs mild_climate hostile_soil = NaN"
  by (simp add: envScore_def tFit_def broken_reqs_def sample_reqs_def mild_climate_def
      empty_example jadd_NaN_right)

lemma overflowing_envScore: "envScore overflowing_reqs extreme_climate hostile_soil = NaN"
  by (simp add: envScore_def tFit_def overflowing_reqs_def sample_reqs_def extreme_climate_def
      overflow_example jadd_NaN_right)

lemma first_frame_NaN:
  assumes "evaluate reqs climR soilR = Some res" "envScore reqs climR soilR = NaN"
  shows "length (timeline res) = 120" and "biomass (timeline res ! 0) = NaN"
proof -
  have tl: "timeline res = map (frame_at reqs climR NaN) [1..<Suc days]"
    using evaluate_Some(1) [OF assms(1)] by (simp only: assms(2))
  have "timeline res ! 0 = frame_at reqs climR NaN (Suc 0)"
    unfolding tl by (rule nth_frames) (simp add: days_def)
  then show "biomass (timeline res ! 0) = NaN"
    by (simp add: frame_at_def biomass_step_NaN)
  show "length (timeline res) = 120" by (simp add: tl days_def)
qed

lemma frame_at_unit:
  assumes "env \<noteq> NaN"
  shows "\<exists>x. biomass (frame_at reqs climR env d) = Fin x \<and> 0 \<le> x \<and> x \<le> 1"
proof -
  obtain b where b: "biomass_at reqs climR env d = Fin b" "0 \<le> b" "b \<le> 1"
    using biomass_at_fin [OF assms] by blast
  from toFixed3_unit [OF b(2,3)] show ?thesis
    by (simp add: frame_at_def b(1))
qed






section \<open>Properties of the fit evaluator\<close>



text \<open>
  C5, as stated: when the span on the value's side is 0 and \<open>dist > 0\<close>, the penalty
  is taken as 1 and the result is 0.4. The code does otherwise: with \<open>min = idealMin = 5\<close>
  the value 3 is below the ideal band at distance 2, the span on that side is 0, and
  \<open>rangeFit\<close> returns 0, not 0.4.
\<close>

theorem rangeFit_zero_span_counterexample:
  "jlt (Fin 3) (ToNumber (idealMin range_5_5_8_10)) \<and>
   jsub (ToNumber (idealMin range_5_5_8_10)) (ToNumber (min_r range_5_5_8_10)) = Fin 0 \<and>
   jsub (ToNumber (idealMin range_5_5_8_10)) (Fin 3) = Fin 2 \<and>
   rangeFit (Fin 3) (Some range_5_5_8_10) = Fin 0 \<and>
   rangeFit (Fin 3) (Some range_5_5_8_10) \<noteq> Fin (2 / 5)"
  by (simp add: range_5_5_8_10_def num_range_def rangeFit_def jsub_Fin fl_small)

text \<open>
  C5, amended. For every finite value and every range, if the span on the value's side
  is 0 (\<^verbatim>\<open>idealMin - min\<close> with the value below \<^verbatim>\<open>idealMin\<close>, or \<^verbatim>\<open>max - idealMax\<close> with
  the value above \<^verbatim>\<open>idealMax\<close>), then the value is outside \<open>[min, max]\<close> and \<open>rangeFit\<close>
  returns 0 by its exclusion test, before any division: such a span yields neither 0.4
  nor NaN.
\<close>

theorem rangeFit_zero_span:
  "(jlt (Fin v) (ToNumber (idealMin r)) \<and>
      jsub (ToNumber (idealMin r)) (ToNumber (min_r r)) = Fin 0) \<or>
   (jgt (Fin v) (ToNumber (idealMax r)) \<and>
      jsub (ToNumber (max_r r)) (ToNumber (idealMax r)) = Fin 0)
   \<longrightarrow> (jlt (Fin v) (ToNumber (min_r r)) \<or> jgt (Fin v) (ToNumber (max_r r))) \<and>
       rangeFit (Fin v) (Some r) = Fin 0"
proof
  assume "(jlt (Fin v) (ToNumber (idealMin r)) \<and>
      jsub (ToNumber (idealMin r)) (ToNumber (min_r r)) = Fin 0) \<or>
   (jgt (Fin v) (ToNumber (idealMax r)) \<and>
      jsub (ToNumber (max_r r)) (ToNumber (idealMax r)) = Fin 0)"
  then have out: "jlt (Fin v) (ToNumber (min_r r)) \<or> jgt (Fin v) (ToNumber (max_r r))"
    by (auto dest!: jsub_eq_zero)
  then have "rangeFit (Fin v) (Some r) = Fin 0"
    by (auto simp add: rangeFit_def)
  with out show "(jlt (Fin v) (ToNumber (min_r r)) \<or> jgt (Fin v) (ToNumber (max_r r))) \<and>
       rangeFit (Fin v) (Some r) = Fin 0" ..
qed

theorem rangeFit_zero_span_witness:
  "jlt (Fin 3) (ToNumber (idealMin range_5_5_8_10)) \<and>
   jsub (ToNumber (idealMin range_5_5_8_10)) (ToNumber (min_r range_5_5_8_10)) = Fin 0 \<and>
   jlt (Fin 3) (ToNumber (min_r range_5_5_8_10)) \<and>
   rangeFit (Fin 3) (Some range_5_5_8_10) = Fin 0"
  using rangeFit_zero_span [of 3 range_5_5_8_10]
  by (simp add: range_5_5_8_10_def num_range_def jsub_Fin fl_small)




text \<open>
  C6. For every value that is not finite (NaN, or an infinity) and for every absent
  range, \<open>rangeFit\<close> returns exactly 0.5. In particular, when the soil pH is NaN (or
  \<^verbatim>\<open>null\<close>, which the handler turns into NaN), \<open>phFit\<close> is exactly 0.5 and the engine
  still returns a result: it is not an error.
\<close>

theorem unknown_is_neutral:
  "(\<not> isFinite v \<or> r = None \<longrightarrow> rangeFit v r = Fin (1 / 2)) \<and>
   (or_NaN (ph soilR) = NaN \<longrightarrow>
      phFit reqs (or_NaN (ph soilR)) = Fin (1 / 2) \<and>
      (\<exists>res. evaluate reqs climR soilR = Some res))"
proof (intro conjI impI)
  assume "\<not> isFinite v \<or> r = None"
  then show "rangeFit v r = Fin (1 / 2)" by (rule rangeFit_unknown)
next
  assume "or_NaN (ph soilR) = NaN"
  then have "\<not> isFinite (or_NaN (ph soilR))" by simp
  then show "phFit reqs (or_NaN (ph soilR)) = Fin (1 / 2)"
    unfolding phFit_def by (intro rangeFit_unknown disjI1)
next
  show "\<exists>res. evaluate reqs climR soilR = Some res"
    by (simp add: evaluate_eq)
qed

theorem unknown_is_neutral_witness:
  "\<not> isFinite NaN \<and> rangeFit NaN (Some range_0_20_30_40) = Fin (1 / 2) \<and>
   rangeFit PInf (Some range_0_20_30_40) = Fin (1 / 2) \<and>
   rangeFit (Fin 25) None = Fin (1 / 2) \<and>
   or_NaN (ph mild_soil) = NaN \<and>
   phFit sample_reqs (or_NaN (ph mild_soil)) = Fin (1 / 2) \<and>
   (\<exists>res. evaluate sample_reqs hostile_climate mild_soil = Some res)"
  using unknown_is_neutral [of NaN "Some range_0_20_30_40" mild_soil sample_reqs hostile_climate]
    unknown_is_neutral [of PInf "Some range_0_20_30_40" mild_soil sample_reqs hostile_climate]
    unknown_is_neutral [of "Fin 25" None mild_soil sample_reqs hostile_climate]
  by (simp add: mild_soil_def or_NaN_def)

section \<open>Properties of soil quality\<close>



section \<open>Properties of the growth timeline\<close>

text \<open>
  C2. When the environmental score is 0, the stress is 1, which exceeds the stress
  threshold 0.6; the decay exceeds the growth rate (on every day, since neither depends
  on the day); the biomass is 0 on every day; \<open>alive\<close> is true up to day 20 and false from
  day 21 through day 120; and the status is \<open>fail\<close>.
\<close>

theorem worst_case_fails:
  assumes "envScore reqs climR soilR = Fin 0"
  shows "stress (envScore reqs climR soilR) = Fin 1 \<and>
         jgt (stress (envScore reqs climR soilR)) (Fin GROWTH_stressThreshold) \<and>
         jgt (decay (stress (envScore reqs climR soilR))) (growthRate (envScore reqs climR soilR)) \<and>
         (\<exists>res. evaluate reqs climR soilR = Some res \<and>
            length (timeline res) = 120 \<and>
            (\<forall>i<120. day (timeline res ! i) = i + 1 \<and>
                      biomass (timeline res ! i) = Fin 0 \<and>
                      alive (timeline res ! i) = (i + 1 \<le> 20)) \<and>
            status res = ''fail'')"
proof (intro conjI)
  show "stress (envScore reqs climR soilR) = Fin 1"
    by (simp add: assms stress_Fin fl_small)
  show "jgt (stress (envScore reqs climR soilR)) (Fin GROWTH_stressThreshold)"
    by (simp add: assms stress_Fin js_Fin fl_small GROWTH_stressThreshold_def)
  show "jgt (decay (stress (envScore reqs climR soilR))) (growthRate (envScore reqs climR soilR))"
    by (simp add: assms stress_Fin decay_unfold growthRate_Fin js_Fin fl_small)
  let ?res = "the (evaluate reqs climR soilR)"
  have ev: "evaluate reqs climR soilR = Some ?res"
    by (simp add: evaluate_eq)
  have tl: "timeline ?res = map (frame_at reqs climR (Fin 0)) [1..<Suc days]"
    and st: "status ?res = status_at reqs climR (Fin 0)"
    by (simp_all add: evaluate_eq assms)
  have len: "length (timeline ?res) = 120"
    by (simp add: tl days_def)
  have frames: "day (timeline ?res ! i) = i + 1 \<and> biomass (timeline ?res ! i) = Fin 0 \<and>
      alive (timeline ?res ! i) = (i + 1 \<le> 20)" if "i < 120" for i
  proof -
    from that have "i < days" by (simp add: days_def)
    then have "timeline ?res ! i = frame_at reqs climR (Fin 0) (Suc i)"
      unfolding tl by (rule nth_frames)
    then show ?thesis by (simp add: worst_frame_at)
  qed
  show "\<exists>res. evaluate reqs climR soilR = Some res \<and>
            length (timeline res) = 120 \<and>
            (\<forall>i<120. day (timeline res ! i) = i + 1 \<and>
                      biomass (timeline res ! i) = Fin 0 \<and>
                      alive (timeline res ! i) = (i + 1 \<le> 20)) \<and>
            status res = ''fail''"
    using ev len frames st worst_status by (intro exI [of _ ?res]) simp
qed

text \<open>The site where nothing fits has environmental score 0.\<close>

theorem worst_case_fails_witness:
  "envScore sample_reqs hostile_climate hostile_soil = Fin 0 \<and>
   (\<exists>res. evaluate sample_reqs hostile_climate hostile_soil = Some res \<and>
      length (timeline res) = 120 \<and>
      biomass (timeline res ! 0) = Fin 0 \<and> alive (timeline res ! 19) \<and>
      \<not> alive (timeline res ! 20) \<and> \<not> alive (timeline res ! 119) \<and>
      biomass (timeline res ! 119) = Fin 0 \<and> status res = ''fail'')"
proof -
  note h = hostile_envScore
  from worst_case_fails [OF h] obtain res where
    r: "evaluate sample_reqs hostile_climate hostile_soil = Some res"
      "length (timeline res) = 120"
      "\<forall>i<120. day (timeline res ! i) = i + 1 \<and> biomass (timeline res ! i) = Fin 0 \<and>
          alive (timeline res ! i) = (i + 1 \<le> 20)"
      "status res = ''fail''"
    by blast
  from r(3) have "biomass (timeline res ! 0) = Fin 0" "alive (timeline res ! 19)"
    "\<not> alive (timeline res ! 20)" "\<not> alive (timeline res ! 119)"
    "biomass (timeline res ! 119) = Fin 0"
    by simp_all
  with h r show ?thesis by blast
qed

text \<open>
  C3. For every input and every two frames of the emitted timeline, if the frame of the
  earlier day has \<open>alive = false\<close> then so has the frame of the later day.
\<close>

theorem alive_monotone:
  "\<exists>res. evaluate reqs climR soilR = Some res \<and>
     (\<forall>f1\<in>set (timeline res). \<forall>f2\<in>set (timeline res).
        day f1 < day f2 \<and> \<not> alive f1 \<longrightarrow> \<not> alive f2)"
proof -
  let ?env = "envScore reqs climR soilR"
  let ?res = "the (evaluate reqs climR soilR)"
  have ev: "evaluate reqs climR soilR = Some ?res"
    by (simp add: evaluate_eq)
  have tl: "timeline ?res = map (frame_at reqs climR ?env) [1..<Suc days]"
    by (simp add: evaluate_eq)
  have "\<not> alive f2"
    if "f1 \<in> set (timeline ?res)" "f2 \<in> set (timeline ?res)" "day f1 < day f2" "\<not> alive f1"
    for f1 f2
  proof -
    from that(1,2) obtain d1 d2 where d: "f1 = frame_at reqs climR ?env d1"
      "f2 = frame_at reqs climR ?env d2"
      unfolding tl frames_set by blast
    with that(3,4) have "d1 \<le> d2" "\<not> alive_at reqs climR ?env d1"
      by (simp_all add: frame_at_def)
    then have "\<not> alive_at reqs climR ?env d2" by (simp add: alive_at_antitone [of _ _ _ d1 d2])
    then show ?thesis by (simp add: d frame_at_def)
  qed
  with ev show ?thesis by blast
qed

theorem alive_monotone_witness:
  "\<exists>res. evaluate sample_reqs hostile_climate hostile_soil = Some res \<and>
     timeline res ! 20 \<in> set (timeline res) \<and> timeline res ! 119 \<in> set (timeline res) \<and>
     day (timeline res ! 20) = 21 \<and> day (timeline res ! 119) = 120 \<and>
     \<not> alive (timeline res ! 20) \<and> \<not> alive (timeline res ! 119)"
proof -
  from alive_monotone [of sample_reqs hostile_climate hostile_soil] obtain res where
    r: "evaluate sample_reqs hostile_climate hostile_soil = Some res"
    and mono: "\<forall>f1\<in>set (timeline res). \<forall>f2\<in>set (timeline res).
        day f1 < day f2 \<and> \<not> alive f1 \<longrightarrow> \<not> alive f2"
    by blast
  have tl: "timeline res = map (frame_at sample_reqs hostile_climate (Fin 0)) [1..<Suc days]"
    using evaluate_Some(1) [OF r] by (simp only: hostile_envScore)
  have len: "length (timeline res) = 120" by (simp add: tl days_def)
  have f20: "timeline res ! 20 = frame_at sample_reqs hostile_climate (Fin 0) 21"
    unfolding tl using nth_frames [of 20 days] by (simp add: days_def)
  have f119: "timeline res ! 119 = frame_at sample_reqs hostile_climate (Fin 0) 120"
    unfolding tl using nth_frames [of 119 days] by (simp add: days_def)
  have m20: "timeline res ! 20 \<in> set (timeline res)"
    and m119: "timeline res ! 119 \<in> set (timeline res)"
    using len by simp_all
  have d: "day (timeline res ! 20) = 21" "day (timeline res ! 119) = 120"
    "\<not> alive (timeline res ! 20)"
    by (simp_all add: f20 f119 worst_frame_at)
  from mono m20 m119 d have "\<not> alive (timeline res ! 119)" by force
  with r m20 m119 d show ?thesis by blast
qed

text \<open>
  C4, as stated: for every input the biomass of every frame lies in \<open>[0, 1]\<close>. The code
  does otherwise for a crop whose temperature range is an object without fields, and for
  a crop whose temperature range is the ordered range with overflowing widths at a site
  on its lower bound: in both the temperature fit is NaN, so is the environmental score,
  NaN passes through both clamps, and the biomass of the first frame is NaN.
\<close>

theorem timeline_shape_counterexample:
  "evaluate broken_reqs mild_climate hostile_soil \<noteq> None \<and>
   length (timeline (the (evaluate broken_reqs mild_climate hostile_soil))) = 120 \<and>
   biomass (timeline (the (evaluate broken_reqs mild_climate hostile_soil)) ! 0) = NaN \<and>
   evaluate overflowing_reqs extreme_climate hostile_soil \<noteq> None \<and>
   length (timeline (the (evaluate overflowing_reqs extreme_climate hostile_soil))) = 120 \<and>
   biomass (timeline (the (evaluate overflowing_reqs extreme_climate hostile_soil)) ! 0) = NaN"
proof -
  obtain r1 where e1: "evaluate broken_reqs mild_climate hostile_soil = Some r1"
    by (simp add: evaluate_eq)
  obtain r2 where e2: "evaluate overflowing_reqs extreme_climate hostile_soil = Some r2"
    by (simp add: evaluate_eq)
  note n1 = first_frame_NaN [OF e1 broken_envScore]
  note n2 = first_frame_NaN [OF e2 overflowing_envScore]
  from n1 n2 show ?thesis by (simp add: e1 e2)
qed

text \<open>
  C4, amended. For every input, the engine returns a timeline of exactly 120 frames,
  whose days are 1, 2, ..., 120 in this order. The biomass of every frame is a number in
  \<open>[0, 1]\<close> whenever the environmental score is not NaN, and this is so whenever every
  range of the crop data has finite widths.
\<close>

theorem timeline_shape:
  "\<exists>res. evaluate reqs climR soilR = Some res \<and>
     length (timeline res) = 120 \<and>
     map day (timeline res) = [1..<121] \<and>
     (envScore reqs climR soilR \<noteq> NaN \<longrightarrow>
        (\<forall>f\<in>set (timeline res). \<exists>x. biomass f = Fin x \<and> 0 \<le> x \<and> x \<le> 1)) \<and>
     (well_formed_reqs reqs \<longrightarrow> envScore reqs climR soilR \<noteq> NaN)"
proof -
  let ?env = "envScore reqs climR soilR"
  obtain res where ev: "evaluate reqs climR soilR = Some res"
    by (simp add: evaluate_eq)
  note tl = evaluate_Some(1) [OF ev]
  have len: "length (timeline res) = 120"
    by (simp add: tl days_def)
  have dys: "map day (timeline res) = [1..<121]"
    unfolding tl map_day_frames by (simp add: days_def)
  have good: "\<exists>x. biomass f = Fin x \<and> 0 \<le> x \<and> x \<le> 1"
    if "?env \<noteq> NaN" "f \<in> set (timeline res)" for f
  proof -
    from that(2) obtain d where "f = frame_at reqs climR ?env d"
      unfolding tl frames_set by blast
    with frame_at_unit [OF that(1)] show ?thesis by simp
  qed
  have wf: "?env \<noteq> NaN" if "well_formed_reqs reqs"
    using envScore_fin [OF that, of climR soilR] by auto
  from ev len dys good wf show ?thesis by blast
qed

theorem timeline_shape_witness:
  "well_formed_reqs sample_reqs \<and>
   envScore sample_reqs hostile_climate hostile_soil \<noteq> NaN \<and>
   (\<exists>res. evaluate sample_reqs hostile_climate hostile_soil = Some res \<and>
     length (timeline res) = 120 \<and> map day (timeline res) = [1..<121] \<and>
     timeline res ! 0 \<in> set (timeline res) \<and>
     (\<exists>x. biomass (timeline res ! 0) = Fin x \<and> 0 \<le> x \<and> x \<le> 1))"
proof -
  from timeline_shape [of sample_reqs hostile_climate hostile_soil] obtain res where
    r: "evaluate sample_reqs hostile_climate hostile_soil = Some res"
      "length (timeline res) = 120" "map day (timeline res) = [1..<121]"
    and b: "envScore sample_reqs hostile_climate hostile_soil \<noteq> NaN \<longrightarrow>
        (\<forall>f\<in>set (timeline res). \<exists>x. biomass f = Fin x \<and> 0 \<le> x \<and> x \<le> 1)"
    and w: "well_formed_reqs sample_reqs \<longrightarrow>
        envScore sample_reqs hostile_climate hostile_soil \<noteq> NaN"
    by blast
  note wf = sample_well_formed
  with w have ne: "envScore sample_reqs hostile_climate hostile_soil \<noteq> NaN" by blast
  have m: "timeline res ! 0 \<in> set (timeline res)" using r(2) by simp
  with b ne have "\<exists>x. biomass (timeline res ! 0) = Fin x \<and> 0 \<le> x \<and> x \<le> 1" by blast
  with r m wf ne show ?thesis by blast
qed

text \<open>
  C9. For every input, if the last frame of the timeline has \<open>alive = false\<close> then the
  status is \<open>fail\<close>: in that case a step from biomass 0 gives biomass 0 again (the net
  increment is not positive) and the biomass is 0 in every frame, day 120 included. So
  the test \<open>biomass < 0.2\<close> of the fail rule never changes the outcome: the status is
  \<open>fail\<close> exactly when the last frame is not alive.
\<close>

theorem dead_implies_fail:
  "\<exists>res. evaluate reqs climR soilR = Some res \<and>
     (\<not> alive (last (timeline res)) \<longrightarrow>
        status res = ''fail'' \<and>
        (\<forall>f\<in>set (timeline res). biomass f = Fin 0) \<and>
        biomass_step reqs climR (envScore reqs climR soilR) (Fin 0) = Fin 0) \<and>
     ((status res = ''fail'') = (\<not> alive (last (timeline res))))"
proof -
  let ?env = "envScore reqs climR soilR"
  obtain res where ev: "evaluate reqs climR soilR = Some res"
    by (simp add: evaluate_eq)
  note tl = evaluate_Some(1) [OF ev] and st = evaluate_Some(2) [OF ev]
  have "last (timeline res) = frame_at reqs climR ?env days"
    unfolding tl by (rule last_frames) (simp add: days_def)
  then have al: "alive (last (timeline res)) = alive_at reqs climR ?env days"
    by (simp add: frame_at_def)
  have iff: "(status res = ''fail'') = (\<not> alive (last (timeline res)))"
    unfolding st al by (rule status_at_fail_iff)
  have "status res = ''fail'' \<and> (\<forall>f\<in>set (timeline res). biomass f = Fin 0) \<and>
      biomass_step reqs climR ?env (Fin 0) = Fin 0"
    if dead: "\<not> alive (last (timeline res))"
  proof -
    from dead have d: "\<not> alive_at reqs climR ?env days" unfolding al .
    have zero: "biomass_at reqs climR ?env m = Fin 0" for m
      using d by (rule dead_means_zero)
    have "biomass f = Fin 0" if "f \<in> set (timeline res)" for f
    proof -
      from that obtain k where "f = frame_at reqs climR ?env k"
        unfolding tl frames_set by blast
      then show ?thesis by (simp add: frame_at_def zero)
    qed
    moreover have "biomass_step reqs climR ?env (Fin 0) = Fin 0"
      using d by (rule dead_means_zero)
    moreover have "status res = ''fail''" using iff dead by simp
    ultimately show ?thesis by blast
  qed
  with ev iff show ?thesis by blast
qed

theorem dead_implies_fail_witness:
  "\<exists>res. evaluate sample_reqs hostile_climate hostile_soil = Some res \<and>
     \<not> alive (last (timeline res)) \<and> status res = ''fail'' \<and>
     last (timeline res) \<in> set (timeline res) \<and> biomass (last (timeline res)) = Fin 0"
proof -
  from dead_implies_fail [of sample_reqs hostile_climate hostile_soil] obtain res where
    r: "evaluate sample_reqs hostile_climate hostile_soil = Some res"
    and imp: "\<not> alive (last (timeline res)) \<longrightarrow>
        status res = ''fail'' \<and> (\<forall>f\<in>set (timeline res). biomass f = Fin 0) \<and>
        biomass_step sample_reqs hostile_climate
          (envScore sample_reqs hostile_climate hostile_soil) (Fin 0) = Fin 0"
    by blast
  have tl: "timeline res = map (frame_at sample_reqs hostile_climate (Fin 0)) [1..<Suc days]"
    using evaluate_Some(1) [OF r] by (simp only: hostile_envScore)
  have "last (timeline res) = frame_at sample_reqs hostile_climate (Fin 0) days"
    unfolding tl by (rule last_frames) (simp add: days_def)
  then have dead: "\<not> alive (last (timeline res))"
    by (simp add: worst_frame_at days_def)
  have "timeline res \<noteq> []" by (simp add: tl days_def)
  then have mem: "last (timeline res) \<in> set (timeline res)" by (rule last_in_set)
  from imp dead mem have "status res = ''fail''" "biomass (last (timeline res)) = Fin 0"
    by blast+
  with r dead mem show ?thesis by blast
qed

section \<open>Incomplete crop data\<close>

text \<open>
  C8. When the crop data lacks \<^verbatim>\<open>temperatureC\<close>, \<^verbatim>\<open>soilPh\<close> or \<^verbatim>\<open>soilTexture\<close>, the
  lookup yields nothing and the handler answers with the error status 404, which
  carries no timeline and no score. When the three keys are present the handler
  answers with a result whatever the climate and soil numbers are (missing, NaN or
  infinite), and whether or not the two optional ranges are there.
\<close>

theorem incomplete_requirements_fail:
  "(json_temperatureC parsed = None \<or> json_soilPh parsed = None \<or> json_soilTexture parsed = None
      \<longrightarrow> getCropDataFromGemini parsed = None \<and> simulate parsed climR soilR = Status404) \<and>
   (json_temperatureC parsed \<noteq> None \<and> json_soilPh parsed \<noteq> None \<and> json_soilTexture parsed \<noteq> None
      \<longrightarrow> (\<exists>res. simulate parsed climR soilR = Ok res))"
proof (intro conjI impI)
  assume "json_temperatureC parsed = None \<or> json_soilPh parsed = None \<or> json_soilTexture parsed = None"
  then show none: "getCropDataFromGemini parsed = None"
    by (simp only: getCropData_None_iff)
  then show "simulate parsed climR soilR = Status404"
    by (simp add: simulate_def)
next
  assume "json_temperatureC parsed \<noteq> None \<and> json_soilPh parsed \<noteq> None \<and> json_soilTexture parsed \<noteq> None"
  then have "getCropDataFromGemini parsed \<noteq> None"
    by (simp only: getCropData_None_iff) simp
  then obtain reqs where "getCropDataFromGemini parsed = Some reqs" by blast
  then show "\<exists>res. simulate parsed climR soilR = Ok res"
    by (simp add: simulate_def evaluate_eq)
qed

theorem incomplete_requirements_fail_witness:
  "json_soilTexture json_without_texture = None \<and>
   simulate json_without_texture hostile_climate hostile_soil = Status404 \<and>
   json_temperatureC json_complete \<noteq> None \<and> json_soilPh json_complete \<noteq> None \<and>
   json_soilTexture json_complete \<noteq> None \<and>
   (\<exists>res. simulate json_complete unknown_climate unknown_soil = Ok res)"
  using incomplete_requirements_fail [of json_without_texture hostile_climate hostile_soil]
    incomplete_requirements_fail [of json_complete unknown_climate unknown_soil]
  by (simp add: json_without_texture_def json_complete_def)

end
